theory Spec2Isabelle
  imports Complex_Main "HOL-Library.Sublist"
begin

section \<open>Python values and errors\<close>

text \<open>
  The cells of the project table are dynamically typed. A cell holds \<open>None\<close>, a number or
  a string. Python's \<open>int\<close> and \<open>float\<close> are one constructor, \<open>Num\<close>, compared by value
  as Python's \<open>==\<close> does (\<open>1 == 1.0\<close>); floats are read as exact reals, so rounding,
  infinities and NaN as a stored value are outside this development. The NaN that
  \<open>pandas.to_numeric\<close> produces for a cell it cannot read lives only inside
  \<open>recalc_projects\<close> and is the \<open>None\<close> of a \<open>real option\<close> there.
\<close>

datatype pyval = NoneV | Num real | Str string

text \<open>
  The exceptions the modelled code can raise. \<open>EngineError\<close> stands for any exception of
  class \<open>Exception\<close> that the external PDF engine raises (with \<open>NameError\<close> when the
  engine was not imported).
\<close>

datatype py_error = KeyError string | TypeError | ValueError | AttributeError | NameError string
  | JSONDecodeError | EngineError string

definition bind_err :: "py_error + 'a \<Rightarrow> ('a \<Rightarrow> py_error + 'b) \<Rightarrow> py_error + 'b" where
  "bind_err m f = (case m of Inl e \<Rightarrow> Inl e | Inr x \<Rightarrow> f x)"

text \<open>A number read from a cell by an arithmetic operator or a comparison with a number:
  \<open>None\<close> and strings raise \<open>TypeError\<close> there.\<close>

fun num_of :: "pyval \<Rightarrow> py_error + real" where
  "num_of (Num r) = Inr r"
| "num_of NoneV = Inl TypeError"
| "num_of (Str s) = Inl TypeError"

fun is_number :: "pyval \<Rightarrow> bool" where
  "is_number (Num r) = True"
| "is_number NoneV = False"
| "is_number (Str s) = False"

fun the_num :: "pyval \<Rightarrow> real" where
  "the_num (Num r) = r"
| "the_num NoneV = 0"
| "the_num (Str s) = 0"

section \<open>Configuration and the record model\<close>

definition DEFAULT_BANK_CHARGES_AMOUNT :: real where
  "DEFAULT_BANK_CHARGES_AMOUNT = 215013"

text \<open>The summary dictionary built in \<open>main\<close> (keys in the source's order).\<close>

record summary =
  total_projects :: int
  completed :: int
  in_progress :: int
  completion_rate :: real
  total_approved :: real
  total_contract :: real
  total_disbursed :: real
  balance :: real

text \<open>
  A project is a dictionary with the keys of \<open>PROJECT_COLUMNS\<close>; a data frame of projects
  is the list of its rows, each with these twelve columns.
\<close>

record project_row =
  s_no :: pyval
  project :: pyval
  approved_cost :: pyval
  contract_sum :: pyval
  disbursed :: pyval
  balance :: pyval
  quality :: pyval
  compliance :: pyval
  other_obs :: pyval
  completion :: pyval
  docs :: pyval
  recommendation :: pyval

definition DEFAULT_PROJECT :: project_row where
  "DEFAULT_PROJECT = \<lparr>
     s_no = Num 1,
     project = Str ''New Project'',
     approved_cost = Num 0,
     contract_sum = Num 0,
     disbursed = Num 0,
     balance = Num 100,
     quality = Str ''Good'',
     compliance = Str ''Compliant'',
     other_obs = Str [],
     completion = Num 0,
     docs = Str ''Pending'',
     recommendation = Str ''Pending Review'' \<rparr>"

section \<open>Summary statistics (main, lines 649 to 685)\<close>

text \<open>Python's \<open>sum\<close> over a generator: the accumulator starts at 0 and the first term
  that raises ends the loop.\<close>

fun py_sum :: "('a \<Rightarrow> py_error + 'b::monoid_add) \<Rightarrow> 'b \<Rightarrow> 'a list \<Rightarrow> py_error + 'b" where
  "py_sum f acc [] = Inr acc"
| "py_sum f acc (p # ps) = (case f p of Inl e \<Rightarrow> Inl e | Inr x \<Rightarrow> py_sum f (acc + x) ps)"

text \<open>\<open>1 for p in projects if p["completion"] >= 100\<close>: a project that passes the filter
  contributes 1, one that does not contributes nothing.\<close>

definition completed_term :: "project_row \<Rightarrow> py_error + int" where
  "completed_term p = bind_err (num_of (completion p)) (\<lambda>c. Inr (if c \<ge> 100 then 1 else 0))"

definition approved_term :: "project_row \<Rightarrow> py_error + real" where
  "approved_term p = num_of (approved_cost p)"

definition contract_term :: "project_row \<Rightarrow> py_error + real" where
  "contract_term p = num_of (contract_sum p)"

text \<open>\<open>(p["disbursed"] / 100) * p["contract_sum"]\<close>\<close>

definition disbursed_term :: "project_row \<Rightarrow> py_error + real" where
  "disbursed_term p =
     bind_err (num_of (disbursed p)) (\<lambda>d.
     bind_err (num_of (contract_sum p)) (\<lambda>c. Inr ((d / 100) * c)))"

definition compute_summary :: "project_row list \<Rightarrow> bool \<Rightarrow> real \<Rightarrow> py_error + summary" where
  "compute_summary projects bank_charges_added bank_charges_amount =
     (let n = int (length projects) in
      bind_err (py_sum completed_term 0 projects) (\<lambda>n_done.
      let in_prog = n - n_done;
          rate = (if n \<noteq> 0 then real_of_int n_done / real_of_int n * 100 else 0) in
      bind_err (py_sum approved_term 0 projects) (\<lambda>approved.
      bind_err (py_sum contract_term 0 projects) (\<lambda>contract.
      bind_err (py_sum disbursed_term 0 projects) (\<lambda>disb.
      let approved' = (if bank_charges_added then approved + bank_charges_amount else approved);
          contract' = (if bank_charges_added then contract + bank_charges_amount else contract);
          disb' = (if bank_charges_added then disb + bank_charges_amount else disb) in
      Inr \<lparr> total_projects = n,
            completed = n_done,
            in_progress = in_prog,
            completion_rate = rate,
            total_approved = approved',
            total_contract = contract',
            total_disbursed = disb',
            balance = contract' - disb' \<rparr>)))))"

text \<open>A project whose four numeric entries read by the summary hold numbers.\<close>

definition numeric_row :: "project_row \<Rightarrow> bool" where
  "numeric_row p \<longleftrightarrow>
     is_number (completion p) \<and> is_number (approved_cost p) \<and> is_number (contract_sum p) \<and> is_number (disbursed p)"

section \<open>Derived fields (recalc_projects)\<close>

text \<open>
  \<open>pd.to_numeric(column, errors="coerce")\<close> on one cell: a number stays, \<open>None\<close>
  becomes NaN, and a string is read as a number where pandas can parse it and becomes NaN
  where it cannot. NaN is \<open>None\<close> here. The parser of numeric strings belongs to pandas
  and is the parameter \<open>parse\<close>.
\<close>

fun to_numeric :: "(string \<Rightarrow> real option) \<Rightarrow> pyval \<Rightarrow> real option" where
  "to_numeric parse (Num r) = Some r"
| "to_numeric parse NoneV = None"
| "to_numeric parse (Str s) = parse s"

definition fillna :: "real option \<Rightarrow> real \<Rightarrow> real" where
  "fillna v d = (case v of None \<Rightarrow> d | Some r \<Rightarrow> r)"

text \<open>
  The four column assignments of \<open>recalc_projects\<close>, in the source's order. The frame is
  changed in place and returned; the model returns the new rows. When \<open>balance\<close> is
  computed the \<open>disbursed\<close> column is numeric already, so the subtraction cannot
  raise.
\<close>

definition recalc_projects :: "(string \<Rightarrow> real option) \<Rightarrow> project_row list \<Rightarrow> project_row list" where
  "recalc_projects parse df =
     (let df1 = map (\<lambda>r. r\<lparr>disbursed := Num (fillna (to_numeric parse (disbursed r)) 0)\<rparr>) df;
          df2 = map (\<lambda>r. r\<lparr>completion := Num (fillna (to_numeric parse (completion r)) 0)\<rparr>) df1;
          df3 = map (\<lambda>r. r\<lparr>balance := Num (100 - the_num (disbursed r))\<rparr>) df2;
          df4 = map (\<lambda>(i, r). r\<lparr>s_no := Num (real i)\<rparr>) (enumerate 1 df3)
      in df4)"

section \<open>Adding and removing projects (main, lines 582 to 593)\<close>

text \<open>\<open>new = DEFAULT_PROJECT.copy(); new["s_no"] = len(projects) + 1; projects.append(new)\<close>\<close>

definition add_project :: "project_row list \<Rightarrow> project_row list" where
  "add_project projects = projects @ [DEFAULT_PROJECT\<lparr>s_no := Num (real (length projects + 1))\<rparr>]"

text \<open>\<open>if projects: projects.pop()\<close>\<close>

definition remove_last_project :: "project_row list \<Rightarrow> project_row list" where
  "remove_last_project projects = (if projects \<noteq> [] then butlast projects else projects)"

section \<open>The call of the document renderer (main, lines 737 to 764)\<close>

text \<open>
  The dictionary appended for the rider. It has no \<open>s_no\<close> key; the renderer numbers the
  rows itself and never reads \<open>s_no\<close>, and the entry is \<open>NoneV\<close> here.
\<close>

definition bank_charges_project :: "real \<Rightarrow> project_row" where
  "bank_charges_project bank_charges = \<lparr>
     s_no = NoneV,
     project = Str ''Bank and Administrative Charges'',
     approved_cost = Num bank_charges,
     contract_sum = Num bank_charges,
     disbursed = Num 100,
     balance = Num 0,
     quality = Str ''N/A'',
     compliance = Str ''N/A'',
     other_obs = Str ''Administrative charges'',
     completion = Num 100,
     docs = Str ''Submitted'',
     recommendation = Str ''Processed'' \<rparr>"

text \<open>\<open>pdf_projects = projects.copy()\<close>, then the append when the rider is enabled.\<close>

definition pdf_projects :: "project_row list \<Rightarrow> bool \<Rightarrow> real \<Rightarrow> project_row list" where
  "pdf_projects projects bank_charges_added bank_charges_amount =
     (if bank_charges_added then projects @ [bank_charges_project bank_charges_amount]
      else projects)"

text \<open>
  The project list and the summary that \<open>main\<close> passes to \<open>generate_pdf\<close>. The summary is
  the one computed earlier in the same run from the stored list; when that computation
  raises, the run ends before the call.
\<close>

definition pdf_call :: "project_row list \<Rightarrow> bool \<Rightarrow> real \<Rightarrow> py_error + (project_row list \<times> summary)" where
  "pdf_call projects bank_charges_added bank_charges_amount =
     bind_err (compute_summary projects bank_charges_added bank_charges_amount) (\<lambda>summary.
     Inr (pdf_projects projects bank_charges_added bank_charges_amount, summary))"

section \<open>Text formatting\<close>

text \<open>The line feed, and the currency sign of the report in UTF-8 (U+20A6).\<close>

definition NL :: string where
  "NL = [CHR 0x0A]"

definition NAIRA :: string where
  "NAIRA = [CHR 0xE2, CHR 0x82, CHR 0xA6]"

text \<open>\<open>str\<close> of a non-negative integer, and of an integer.\<close>

fun decimal :: "nat \<Rightarrow> string" where
  "decimal n = (if n < 10 then [''0123456789'' ! n]
     else decimal (n div 10) @ [''0123456789'' ! (n mod 10)])"

declare decimal.simps [simp del]

definition py_str_int :: "int \<Rightarrow> string" where
  "py_str_int i = (if i < 0 then ''-'' @ decimal (nat (- i)) else decimal (nat i))"

text \<open>The thousands separator of the format option \<open>,\<close>: a comma before every group of
  three digits, counted from the right.\<close>

function group3 :: "string \<Rightarrow> string" where
  "group3 ds = (if length ds \<le> 3 then ds
     else group3 (take (length ds - 3) ds) @ '','' @ drop (length ds - 3) ds)"
  by pat_completeness auto
termination
  by (relation "measure length") auto

declare group3.simps [simp del]

text \<open>Rounding to the nearest integer, a tie to the even one, as the conversion of a
  float to decimal digits rounds.\<close>

definition round_half_even :: "real \<Rightarrow> int" where
  "round_half_even x =
     (let f = \<lfloor>x\<rfloor>; r = x - of_int f in
      if r < 1 / 2 then f else if r > 1 / 2 then f + 1 else if even f then f else f + 1)"

text \<open>
  The format specifications \<open>.nf\<close> (\<open>grouping\<close> false) and \<open>,.nf\<close> (\<open>grouping\<close> true):
  the sign of a negative number, the integer digits, and \<open>n\<close> digits after the point when
  \<open>n\<close> is not 0.
\<close>

definition format_fixed :: "bool \<Rightarrow> nat \<Rightarrow> real \<Rightarrow> string" where
  "format_fixed grouping n x =
     (let m = nat (round_half_even (\<bar>x\<bar> * 10 ^ n));
          ip = decimal (m div 10 ^ n);
          fp = decimal (m mod 10 ^ n);
          frac = replicate (n - length fp) (CHR ''0'') @ fp
      in (if x < 0 then ''-'' else [])
         @ (if grouping then group3 ip else ip)
         @ (if n = 0 then [] else ''.'' @ frac))"

text \<open>
  \<open>str(v)\<close>, which an f-string applies to a cell it prints: a string is printed as it
  is, with no escaping. Python prints an \<open>int\<close> and a \<open>float\<close> of the same value
  differently, and a float by its shortest representation; the printer of numbers is the
  parameter \<open>num_str\<close>.
\<close>

fun py_str :: "(real \<Rightarrow> string) \<Rightarrow> pyval \<Rightarrow> string" where
  "py_str num_str (Str s) = s"
| "py_str num_str NoneV = ''None''"
| "py_str num_str (Num r) = num_str r"

text \<open>
  \<open>float(v)\<close>: \<open>None\<close> raises \<open>TypeError\<close>, a string that is not a number raises
  \<open>ValueError\<close>. The reader of numeric strings is the parameter \<open>float_str\<close>.
\<close>

fun py_float :: "(string \<Rightarrow> real option) \<Rightarrow> pyval \<Rightarrow> py_error + real" where
  "py_float float_str (Num r) = Inr r"
| "py_float float_str NoneV = Inl TypeError"
| "py_float float_str (Str s) = (case float_str s of None \<Rightarrow> Inl ValueError | Some r \<Rightarrow> Inr r)"

section \<open>Summary statistics in binary floating point\<close>

text \<open>
  \<open>compute_summary\<close> above reads the numbers as exact reals. The numbers of the program
  are binary64 floats, and each arithmetic operation on them gives the float nearest to
  the exact result, a tie going to the even mantissa. \<open>binary64\<close> is that rounding for
  results in the normal range (no overflow, no subnormal numbers): the exponent \<open>e\<close> of
  \<open>x\<close> has \<open>2 ^ e \<le> \<bar>x\<bar> < 2 ^ (e + 1)\<close>, and \<open>x\<close> is rounded to a multiple of
  \<open>2 ^ (e - 52)\<close>.
\<close>

fun ilog2 :: "nat \<Rightarrow> nat" where
  "ilog2 n = (if n < 2 then 0 else Suc (ilog2 (n div 2)))"

declare ilog2.simps [simp del]

definition pow2 :: "int \<Rightarrow> real" where
  "pow2 e = (if 0 \<le> e then 2 ^ nat e else 1 / 2 ^ nat (- e))"

definition exponent :: "real \<Rightarrow> int" where
  "exponent a =
     (if 1 \<le> a then int (ilog2 (nat \<lfloor>a\<rfloor>))
      else (let k = ilog2 (nat \<lfloor>1 / a\<rfloor>) in
            if a * 2 ^ k = 1 then - int k else - int k - 1))"

definition binary64 :: "real \<Rightarrow> real" where
  "binary64 x =
     (if x = 0 then 0
      else (let u = pow2 (exponent \<bar>x\<bar> - 52) in of_int (round_half_even (x / u)) * u))"

text \<open>The terms of a generator, up to the first one that raises.\<close>

fun py_terms :: "('a \<Rightarrow> py_error + 'b) \<Rightarrow> 'a list \<Rightarrow> py_error + 'b list" where
  "py_terms f [] = Inr []"
| "py_terms f (p # ps) = bind_err (f p) (\<lambda>x. bind_err (py_terms f ps) (\<lambda>xs. Inr (x # xs)))"

text \<open>
  \<open>sum\<close> over floats adds from the left, starting at 0, and rounds each addition
  (\<open>fold_sum\<close>); from Python 3.12 on it compensates the rounding errors instead. For a
  list of one float both give that float. The summation is the parameter \<open>fsum\<close> of
  \<open>compute_summary_fl\<close>.
\<close>

definition fold_sum :: "(real \<Rightarrow> real) \<Rightarrow> real list \<Rightarrow> real" where
  "fold_sum rnd xs = foldl (\<lambda>acc x. rnd (acc + x)) 0 xs"

text \<open>\<open>(p["disbursed"] / 100) * p["contract_sum"]\<close>, each operation rounded.\<close>

definition disbursed_term_fl :: "(real \<Rightarrow> real) \<Rightarrow> project_row \<Rightarrow> py_error + real" where
  "disbursed_term_fl rnd p =
     bind_err (num_of (disbursed p)) (\<lambda>d.
     bind_err (num_of (contract_sum p)) (\<lambda>c. Inr (rnd (rnd (d / 100) * c))))"

text \<open>
  The summary of \<open>main\<close> (lines 649 to 685) with the rounding \<open>rnd\<close> of one operation
  and the summation \<open>fsum\<close>: the same statements as in \<open>compute_summary\<close>, every float
  operation rounded. The counts are integers and exact.
\<close>

definition compute_summary_fl ::
    "(real \<Rightarrow> real) \<Rightarrow> (real list \<Rightarrow> real) \<Rightarrow> project_row list \<Rightarrow> bool \<Rightarrow> real \<Rightarrow> py_error + summary" where
  "compute_summary_fl rnd fsum projects bank_charges_added bank_charges_amount =
     (let n = int (length projects) in
      bind_err (py_sum completed_term 0 projects) (\<lambda>n_done.
      let in_prog = n - n_done;
          rate = (if n \<noteq> 0 then rnd (rnd (real_of_int n_done / real_of_int n) * 100) else 0) in
      bind_err (py_terms approved_term projects) (\<lambda>approved_costs.
      bind_err (py_terms contract_term projects) (\<lambda>contract_sums.
      bind_err (py_terms (disbursed_term_fl rnd) projects) (\<lambda>disbursed_amounts.
      let approved = fsum approved_costs;
          contract = fsum contract_sums;
          disb = fsum disbursed_amounts;
          approved' = (if bank_charges_added then rnd (approved + bank_charges_amount) else approved);
          contract' = (if bank_charges_added then rnd (contract + bank_charges_amount) else contract);
          disb' = (if bank_charges_added then rnd (disb + bank_charges_amount) else disb) in
      Inr \<lparr> total_projects = n,
            completed = n_done,
            in_progress = in_prog,
            completion_rate = rate,
            total_approved = approved',
            total_contract = contract',
            total_disbursed = disb',
            balance = rnd (contract' - disb') \<rparr>)))))"

section \<open>The document (create_html_report)\<close>

text \<open>The dictionaries that \<open>main\<close> builds for the renderer; their values are strings.\<close>

record institution_info =
  name :: string
  location :: string
  year :: string
  date :: string

record team_member =
  name :: string
  designation :: string

record approval_info =
  status :: string
  officer :: string
  date :: string
  comments :: string

text \<open>The text that one pass of the loop over the projects appends to \<open>project_rows\<close>,
  from the row number, the project and the five converted numbers.\<close>

definition project_row_text ::
    "(real \<Rightarrow> string) \<Rightarrow> nat \<Rightarrow> project_row \<Rightarrow> real \<Rightarrow> real \<Rightarrow> real \<Rightarrow> real \<Rightarrow> real \<Rightarrow> string" where
  \<open>project_row_text num_str i p approved contract disb bal compl = concat
     [NL,
      ''        <tr>'', NL,
      ''            <td style="text-align: center;">'', decimal i, ''</td>'', NL,
      ''            <td>'', py_str num_str (project p), ''</td>'', NL,
      ''            <td style="text-align: right;">'', NAIRA, format_fixed True 0 approved, ''</td>'', NL,
      ''            <td style="text-align: right;">'', NAIRA, format_fixed True 0 contract, ''</td>'', NL,
      ''            <td style="text-align: center;">'', format_fixed False 1 disb, ''%</td>'', NL,
      ''            <td style="text-align: center;">'', format_fixed False 1 bal, ''%</td>'', NL,
      ''            <td style="text-align: center;">'', py_str num_str (quality p), ''</td>'', NL,
      ''            <td style="text-align: center;">'', py_str num_str (compliance p), ''</td>'', NL,
      ''            <td>'', py_str num_str (other_obs p), ''</td>'', NL,
      ''            <td style="text-align: center;">'', format_fixed False 1 compl, ''%</td>'', NL,
      ''            <td style="text-align: center;">'', py_str num_str (docs p), ''</td>'', NL,
      ''            <td>'', py_str num_str (recommendation p), ''</td>'', NL,
      ''        </tr>'', NL,
      ''        '']\<close>

text \<open>One pass of the loop: the five conversions, in the source's order, then the text.\<close>

definition project_row_html ::
    "(string \<Rightarrow> real option) \<Rightarrow> (real \<Rightarrow> string) \<Rightarrow> nat \<Rightarrow> project_row \<Rightarrow> py_error + string" where
  "project_row_html float_str num_str i p =
     bind_err (py_float float_str (approved_cost p)) (\<lambda>approved.
     bind_err (py_float float_str (contract_sum p)) (\<lambda>contract.
     bind_err (py_float float_str (disbursed p)) (\<lambda>disb.
     bind_err (py_float float_str (project_row.balance p)) (\<lambda>bal.
     bind_err (py_float float_str (completion p)) (\<lambda>compl.
     Inr (project_row_text num_str i p approved contract disb bal compl))))))"

text \<open>\<open>for i, p in enumerate(projects, 1): project_rows += ...\<close>\<close>

fun project_rows_loop ::
    "(string \<Rightarrow> real option) \<Rightarrow> (real \<Rightarrow> string) \<Rightarrow> nat \<Rightarrow> project_row list \<Rightarrow> string \<Rightarrow> py_error + string" where
  "project_rows_loop float_str num_str i [] project_rows = Inr project_rows"
| "project_rows_loop float_str num_str i (p # ps) project_rows =
     bind_err (project_row_html float_str num_str i p) (\<lambda>row.
     project_rows_loop float_str num_str (i + 1) ps (project_rows @ row))"

definition team_row_html :: "nat \<Rightarrow> team_member \<Rightarrow> string" where
  \<open>team_row_html i m = concat
     [NL,
      ''        <tr>'', NL,
      ''            <td style="text-align: center;">'', decimal i, ''</td>'', NL,
      ''            <td>'', team_member.name m, ''</td>'', NL,
      ''            <td>'', designation m, ''</td>'', NL,
      ''            <td style="text-align: center;">________________</td>'', NL,
      ''        </tr>'', NL,
      ''        '']\<close>

fun team_rows_loop :: "nat \<Rightarrow> team_member list \<Rightarrow> string \<Rightarrow> string" where
  "team_rows_loop i [] team_rows = team_rows"
| "team_rows_loop i (m # ms) team_rows = team_rows_loop (i + 1) ms (team_rows @ team_row_html i m)"

text \<open>\<open>if logo_base64:\<close> is false for \<open>None\<close> and for the empty string.\<close>

definition logo_html_of :: "string option \<Rightarrow> string" where
  \<open>logo_html_of logo_base64 =
     (case logo_base64 of
        None \<Rightarrow> ''<h1 style="text-align: center; color: #1E3A8A;">TERTIARY EDUCATION TRUST FUND</h1>''
      | Some b \<Rightarrow>
          if b \<noteq> [] then
            concat [''<div style="text-align: center;"><img src="data:image/png;base64,'', b,
                    ''" style="height: 80px; width: auto;"></div>'']
          else ''<h1 style="text-align: center; color: #1E3A8A;">TERTIARY EDUCATION TRUST FUND</h1>'')\<close>

text \<open>The template, up to the project rows and after them.\<close>

definition report_head :: "string \<Rightarrow> string \<Rightarrow> institution_info \<Rightarrow> string" where
  \<open>report_head page_size logo_html institution_info = concat
     [''<!DOCTYPE html>'', NL,
      ''<html>'', NL,
      ''<head>'', NL,
      ''    <meta charset="UTF-8">'', NL,
      ''    <title>TETFUND Monitoring Report</title>'', NL,
      ''    <style>'', NL,
      ''        @page {'', NL,
      ''            size: '', page_size, '';'', NL,
      ''            margin: 2cm;'', NL,
      ''        }'', NL,
      ''        body {'', NL,
      ''            font-family: Arial, Helvetica, sans-serif;'', NL,
      ''            font-size: 10pt;'', NL,
      ''            line-height: 1.4;'', NL,
      ''            color: #333;'', NL,
      ''        }'', NL,
      ''        h1 {'', NL,
      ''            color: #1E3A8A;'', NL,
      ''            font-size: 24pt;'', NL,
      ''            text-align: center;'', NL,
      ''            margin: 10px 0;'', NL,
      ''        }'', NL,
      ''        h2 {'', NL,
      ''            color: #1E3A8A;'', NL,
      ''            font-size: 16pt;'', NL,
      ''            text-align: center;'', NL,
      ''            margin: 5px 0;'', NL,
      ''        }'', NL,
      ''        h3 {'', NL,
      ''            color: #1E3A8A;'', NL,
      ''            font-size: 14pt;'', NL,
      ''            text-align: center;'', NL,
      ''            margin: 15px 0 10px 0;'', NL,
      ''        }'', NL,
      ''        table {'', NL,
      ''            width: 100%;'', NL,
      ''            border-collapse: collapse;'', NL,
      ''            margin: 15px 0;'', NL,
      ''            font-size: 9pt;'', NL,
      ''        }'', NL,
      ''        th {'', NL,
      ''            background-color: #1E3A8A;'', NL,
      ''            color: white;'', NL,
      ''            padding: 8px 4px;'', NL,
      ''            font-weight: bold;'', NL,
      ''            text-align: center;'', NL,
      ''            border: 1px solid #1E3A8A;'', NL,
      ''        }'', NL,
      ''        td {'', NL,
      ''            border: 1px solid #999;'', NL,
      ''            padding: 6px 4px;'', NL,
      ''            vertical-align: top;'', NL,
      ''        }'', NL,
      ''        .info-box {'', NL,
      ''            background-color: #f5f5f5;'', NL,
      ''            padding: 10px;'', NL,
      ''            margin: 15px 0;'', NL,
      ''            border: 1px solid #ddd;'', NL,
      ''            border-radius: 3px;'', NL,
      ''        }'', NL,
      ''        .signature {'', NL,
      ''            margin-top: 30px;'', NL,
      ''            padding-top: 10px;'', NL,
      ''        }'', NL,
      ''        .footer {'', NL,
      ''            text-align: center;'', NL,
      ''            font-size: 8pt;'', NL,
      ''            color: #666;'', NL,
      ''            margin-top: 30px;'', NL,
      ''            padding-top: 10px;'', NL,
      ''            border-top: 1px solid #ccc;'', NL,
      ''        }'', NL,
      ''        .text-center { text-align: center; }'', NL,
      ''        .text-right { text-align: right; }'', NL,
      ''    </style>'', NL,
      ''</head>'', NL,
      ''<body>'', NL,
      ''    '', logo_html, NL,
      ''    '', NL,
      ''    <h1>TERTIARY EDUCATION TRUST FUND</h1>'', NL,
      ''    <h2>Monitoring & Evaluation Department</h2>'', NL,
      ''    <h3>Second / Final Tranche Monitoring Report</h3>'', NL,
      NL,
      ''    <div class="info-box">'', NL,
      ''        <strong>Institution:</strong> '', institution_info.name institution_info, '' | '', NL,
      ''        <strong>Location:</strong> '', institution_info.location institution_info, '' | '', NL,
      ''        <strong>Inspection Date:</strong> '', institution_info.date institution_info, '' | '', NL,
      ''        <strong>Intervention Year:</strong> '', year institution_info, NL,
      ''    </div>'', NL,
      NL,
      ''    <h3>Projects Monitoring Details</h3>'', NL,
      ''    <table>'', NL,
      ''        <thead>'', NL,
      ''            <tr>'', NL,
      ''                <th style="width: 3%;">S/N</th>'', NL,
      ''                <th style="width: 12%;">Project</th>'', NL,
      ''                <th style="width: 8%;">Approved ('', NAIRA, '')</th>'', NL,
      ''                <th style="width: 8%;">Contract ('', NAIRA, '')</th>'', NL,
      ''                <th style="width: 4%;">%Disb</th>'', NL,
      ''                <th style="width: 4%;">%Bal</th>'', NL,
      ''                <th style="width: 6%;">Quality</th>'', NL,
      ''                <th style="width: 6%;">Compl</th>'', NL,
      ''                <th style="width: 15%;">Observations</th>'', NL,
      ''                <th style="width: 4%;">%Comp</th>'', NL,
      ''                <th style="width: 6%;">Docs</th>'', NL,
      ''                <th style="width: 14%;">Recommendation</th>'', NL,
      ''            </tr>'', NL,
      ''        </thead>'', NL,
      ''        <tbody>'', NL,
      ''            '']\<close>

definition report_tail :: "summary \<Rightarrow> string \<Rightarrow> approval_info \<Rightarrow> string \<Rightarrow> string" where
  \<open>report_tail summary team_rows approval_info now = concat
     [NL,
      ''        </tbody>'', NL,
      ''    </table>'', NL,
      NL,
      ''    <div class="info-box">'', NL,
      ''        <strong>Total Projects:</strong> '', py_str_int (total_projects summary), '' | '', NL,
      ''        <strong>Completed:</strong> '', py_str_int (completed summary), '' | '', NL,
      ''        <strong>In Progress:</strong> '', py_str_int (in_progress summary), '' | '', NL,
      ''        <strong>Completion Rate:</strong> '', format_fixed False 1 (completion_rate summary), ''%<br>'', NL,
      ''        <strong>Total Approved:</strong> '', NAIRA, format_fixed True 2 (total_approved summary), '' | '', NL,
      ''        <strong>Total Contract:</strong> '', NAIRA, format_fixed True 2 (total_contract summary), '' | '', NL,
      ''        <strong>Total Disbursed:</strong> '', NAIRA, format_fixed True 2 (total_disbursed summary), '' | '', NL,
      ''        <strong>Balance:</strong> '', NAIRA, format_fixed True 2 (summary.balance summary), NL,
      ''    </div>'', NL,
      NL,
      ''    <h3>Monitoring Team</h3>'', NL,
      ''    <table>'', NL,
      ''        <thead>'', NL,
      ''            <tr>'', NL,
      ''                <th style="width: 10%;">S/N</th>'', NL,
      ''                <th style="width: 40%;">Name</th>'', NL,
      ''                <th style="width: 30%;">Designation</th>'', NL,
      ''                <th style="width: 20%;">Signature</th>'', NL,
      ''            </tr>'', NL,
      ''        </thead>'', NL,
      ''        <tbody>'', NL,
      ''            '', team_rows, NL,
      ''        </tbody>'', NL,
      ''    </table>'', NL,
      NL,
      ''    <h3>DM&E Approval</h3>'', NL,
      ''    <div class="info-box">'', NL,
      ''        <strong>Status:</strong> '', status approval_info, '' | '', NL,
      ''        <strong>Officer:</strong> '', officer approval_info, '' | '', NL,
      ''        <strong>Date:</strong> '', approval_info.date approval_info, ''<br>'', NL,
      ''        <strong>Comments:</strong> '', comments approval_info, NL,
      ''    </div>'', NL,
      NL,
      ''    <div class="signature">'', NL,
      ''        <strong>DM&E Officer Signature:</strong><br>'', NL,
      ''        _________________________________________'', NL,
      ''    </div>'', NL,
      NL,
      ''    <div class="footer">'', NL,
      ''        Generated on '', now, NL,
      ''    </div>'', NL,
      ''</body>'', NL,
      ''</html>'']\<close>

text \<open>
  \<open>create_html_report\<close>. \<open>now\<close> is the text of \<open>datetime.now().strftime(...)\<close>, read
  from the clock when the template is filled.
\<close>

definition create_html_report ::
    "(string \<Rightarrow> real option) \<Rightarrow> (real \<Rightarrow> string) \<Rightarrow> string \<Rightarrow> project_row list \<Rightarrow> institution_info
      \<Rightarrow> team_member list \<Rightarrow> approval_info \<Rightarrow> summary \<Rightarrow> string \<Rightarrow> string option \<Rightarrow> py_error + string" where
  "create_html_report float_str num_str now projects institution_info monitoring_team
       approval_info summary orientation logo_base64 =
     (let page_size = (if orientation = ''Landscape'' then ''A4 landscape'' else ''A4'') in
      bind_err (project_rows_loop float_str num_str 1 projects []) (\<lambda>project_rows.
      let team_rows = team_rows_loop 1 monitoring_team [];
          logo_html = logo_html_of logo_base64
      in Inr (report_head page_size logo_html institution_info @ project_rows
              @ report_tail summary team_rows approval_info now)))"

text \<open>A cell that \<open>float\<close> accepts, and the number it gives for such a cell.\<close>

fun readable :: "(string \<Rightarrow> real option) \<Rightarrow> pyval \<Rightarrow> bool" where
  "readable float_str (Num r) = True"
| "readable float_str NoneV = False"
| "readable float_str (Str s) = (float_str s \<noteq> None)"

fun float_value :: "(string \<Rightarrow> real option) \<Rightarrow> pyval \<Rightarrow> real" where
  "float_value float_str (Num r) = r"
| "float_value float_str NoneV = 0"
| "float_value float_str (Str s) = (case float_str s of None \<Rightarrow> 0 | Some r \<Rightarrow> r)"

text \<open>A project whose five cells converted by the renderer are accepted by \<open>float\<close>.\<close>

definition readable_row :: "(string \<Rightarrow> real option) \<Rightarrow> project_row \<Rightarrow> bool" where
  "readable_row float_str p \<longleftrightarrow>
     readable float_str (approved_cost p) \<and> readable float_str (contract_sum p)
     \<and> readable float_str (disbursed p) \<and> readable float_str (project_row.balance p)
     \<and> readable float_str (completion p)"

section \<open>PDF generation (generate_pdf)\<close>

text \<open>
  \<open>HTML(string=html_content).write_pdf(pdf_file)\<close>. The engine is \<open>None\<close> when the import
  of the PDF library failed: the name \<open>HTML\<close> is then not defined and its use raises
  \<open>NameError\<close>. Otherwise the engine gives the bytes of the document or raises.
\<close>

definition write_pdf :: "(string \<Rightarrow> py_error + string) option \<Rightarrow> string \<Rightarrow> py_error + string" where
  "write_pdf engine html_content =
     (case engine of None \<Rightarrow> Inl (NameError ''HTML'') | Some render \<Rightarrow> render html_content)"

text \<open>
  \<open>generate_pdf\<close>: the body of the \<open>try\<close>, and the handler of \<open>except Exception\<close>. The
  errors of this development are all of class \<open>Exception\<close>. The messages that \<open>st.error\<close>
  shows are appended to the list \<open>shown\<close>; \<open>exc_str\<close> is \<open>str(e)\<close> and \<open>format_exc\<close> is
  \<open>traceback.format_exc()\<close> for the exception that was caught. The result is the value
  returned, \<open>None\<close> or the bytes, with the messages shown.
\<close>

definition generate_pdf ::
    "(string \<Rightarrow> py_error + string) option \<Rightarrow> (py_error \<Rightarrow> string) \<Rightarrow> (py_error \<Rightarrow> string)
      \<Rightarrow> (string \<Rightarrow> real option) \<Rightarrow> (real \<Rightarrow> string) \<Rightarrow> string
      \<Rightarrow> project_row list \<Rightarrow> institution_info \<Rightarrow> team_member list \<Rightarrow> approval_info \<Rightarrow> summary
      \<Rightarrow> string \<Rightarrow> string option \<Rightarrow> string list \<Rightarrow> string option \<times> string list" where
  "generate_pdf engine exc_str format_exc float_str num_str now projects institution_info
       monitoring_team approval_info summary orientation logo_base64 shown =
     (case bind_err
             (create_html_report float_str num_str now projects institution_info monitoring_team
                approval_info summary orientation logo_base64)
             (write_pdf engine) of
        Inr pdf_bytes \<Rightarrow> (Some pdf_bytes, shown)
      | Inl e \<Rightarrow> (None, shown @ [''PDF generation failed: '' @ exc_str e, format_exc e]))"

section \<open>The draft snapshot (load_autosave)\<close>

text \<open>
  What \<open>json.load\<close> returns. An object is the dictionary that was built, as the list of
  its items, each key once.
\<close>

datatype json = JNull | JBool bool | JNum real | JStr string | JArr "json list"
  | JObj "(string \<times> json) list"

text \<open>\<open>draft[key]\<close>: a dictionary without the key raises \<open>KeyError\<close>; a list or a string
  indexed by a string, and a value that cannot be indexed, raise \<open>TypeError\<close>.\<close>

fun py_item :: "json \<Rightarrow> string \<Rightarrow> py_error + json" where
  "py_item (JObj kvs) key = (case map_of kvs key of None \<Rightarrow> Inl (KeyError key) | Some v \<Rightarrow> Inr v)"
| "py_item JNull key = Inl TypeError"
| "py_item (JBool b) key = Inl TypeError"
| "py_item (JNum r) key = Inl TypeError"
| "py_item (JStr s) key = Inl TypeError"
| "py_item (JArr xs) key = Inl TypeError"

text \<open>\<open>draft.get(key, default)\<close>: only a dictionary has the method.\<close>

fun py_get :: "json \<Rightarrow> string \<Rightarrow> json \<Rightarrow> py_error + json" where
  "py_get (JObj kvs) key dflt = Inr (case map_of kvs key of None \<Rightarrow> dflt | Some v \<Rightarrow> v)"
| "py_get JNull key dflt = Inl AttributeError"
| "py_get (JBool b) key dflt = Inl AttributeError"
| "py_get (JNum r) key dflt = Inl AttributeError"
| "py_get (JStr s) key dflt = Inl AttributeError"
| "py_get (JArr xs) key dflt = Inl AttributeError"

text \<open>Python's truth value of a JSON value.\<close>

fun py_truthy :: "json \<Rightarrow> bool" where
  "py_truthy JNull = False"
| "py_truthy (JBool b) = b"
| "py_truthy (JNum r) = (r \<noteq> 0)"
| "py_truthy (JStr s) = (s \<noteq> [])"
| "py_truthy (JArr xs) = (xs \<noteq> [])"
| "py_truthy (JObj kvs) = (kvs \<noteq> [])"

text \<open>A calendar date: year, month, day.\<close>

type_synonym date = "nat \<times> nat \<times> nat"

text \<open>
  \<open>datetime.fromisoformat(v).date()\<close>: a value that is not a string raises \<open>TypeError\<close>, a
  string that is not an ISO date raises \<open>ValueError\<close>. The reader of ISO strings belongs to
  the standard library and is the parameter \<open>fromiso\<close>.
\<close>

fun date_fromisoformat :: "(string \<Rightarrow> date option) \<Rightarrow> json \<Rightarrow> py_error + date" where
  "date_fromisoformat fromiso (JStr s) = (case fromiso s of None \<Rightarrow> Inl ValueError | Some d \<Rightarrow> Inr d)"
| "date_fromisoformat fromiso JNull = Inl TypeError"
| "date_fromisoformat fromiso (JBool b) = Inl TypeError"
| "date_fromisoformat fromiso (JNum r) = Inl TypeError"
| "date_fromisoformat fromiso (JArr xs) = Inl TypeError"
| "date_fromisoformat fromiso (JObj kvs) = Inl TypeError"

text \<open>
  The session state. \<open>load_autosave\<close> stores the values of the draft as it finds them,
  whatever their types, so the entries it writes are JSON values here; the inspection date
  is the one entry it converts.
\<close>

record session_state =
  projects :: json
  institution_name :: json
  location :: json
  intervention_year :: json
  inspection_date :: date
  bank_charges_added :: json
  bank_charges_amount :: json
  monitoring_team :: json
  approval_status :: json
  dme_officer :: json
  approval_comments :: json
  generated_reports :: json
  draft_loaded :: json
  pdf_orientation :: json

fun json_of_pyval :: "pyval \<Rightarrow> json" where
  "json_of_pyval NoneV = JNull"
| "json_of_pyval (Num r) = JNum r"
| "json_of_pyval (Str s) = JStr s"

definition json_of_project :: "project_row \<Rightarrow> json" where
  "json_of_project p = JObj
     [(''s_no'', json_of_pyval (s_no p)),
      (''project'', json_of_pyval (project p)),
      (''approved_cost'', json_of_pyval (approved_cost p)),
      (''contract_sum'', json_of_pyval (contract_sum p)),
      (''disbursed'', json_of_pyval (disbursed p)),
      (''balance'', json_of_pyval (project_row.balance p)),
      (''quality'', json_of_pyval (quality p)),
      (''compliance'', json_of_pyval (compliance p)),
      (''other_obs'', json_of_pyval (other_obs p)),
      (''completion'', json_of_pyval (completion p)),
      (''docs'', json_of_pyval (docs p)),
      (''recommendation'', json_of_pyval (recommendation p))]"

definition DEFAULT_MONITORING_TEAM :: json where
  "DEFAULT_MONITORING_TEAM = JArr
     [JObj [(''name'', JStr ''Arch. A.A.''), (''designation'', JStr ''Team Lead'')],
      JObj [(''name'', JStr ''Engr. A.B.''), (''designation'', JStr ''Monitor'')],
      JObj [(''name'', JStr ''Mr. A.C.''), (''designation'', JStr ''Engineer'')]]"

text \<open>\<open>init_state\<close> on a fresh session: every key gets its default. The current year (as
  text) and the current date come from the clock and are parameters.\<close>

definition init_state :: "string \<Rightarrow> date \<Rightarrow> session_state" where
  "init_state this_year today = \<lparr>
     projects = JArr [json_of_project DEFAULT_PROJECT],
     institution_name = JStr [],
     location = JStr [],
     intervention_year = JStr this_year,
     inspection_date = today,
     bank_charges_added = JBool False,
     bank_charges_amount = JNum DEFAULT_BANK_CHARGES_AMOUNT,
     monitoring_team = DEFAULT_MONITORING_TEAM,
     approval_status = JStr ''Pending'',
     dme_officer = JStr [],
     approval_comments = JStr [],
     generated_reports = JArr [],
     draft_loaded = JNull,
     pdf_orientation = JStr ''Landscape'' \<rparr>"

text \<open>
  Statements run in sequence on the session state: the first one that raises ends the
  run, and the state keeps what the statements before it stored.
\<close>

fun run_steps :: "('s \<Rightarrow> py_error + 's) list \<Rightarrow> 's \<Rightarrow> py_error option \<times> 's" where
  "run_steps [] s = (None, s)"
| "run_steps (f # fs) s = (case f s of Inl e \<Rightarrow> (Some e, s) | Inr s' \<Rightarrow> run_steps fs s')"

text \<open>One assignment \<open>st.session_state.k = draft[key]\<close> and one assignment
  \<open>st.session_state.k = draft.get(key, default)\<close>; \<open>upd\<close> stores the value under \<open>k\<close>.\<close>

definition store_item ::
    "json \<Rightarrow> string \<Rightarrow> (json \<Rightarrow> session_state \<Rightarrow> session_state) \<Rightarrow> session_state \<Rightarrow> py_error + session_state" where
  "store_item draft key upd s = map_sum id (\<lambda>v. upd v s) (py_item draft key)"

definition store_get ::
    "json \<Rightarrow> string \<Rightarrow> json \<Rightarrow> (json \<Rightarrow> session_state \<Rightarrow> session_state) \<Rightarrow> session_state \<Rightarrow> py_error + session_state" where
  "store_get draft key dflt upd s = map_sum id (\<lambda>v. upd v s) (py_get draft key dflt)"

definition store_date ::
    "(string \<Rightarrow> date option) \<Rightarrow> json \<Rightarrow> string \<Rightarrow> session_state \<Rightarrow> py_error + session_state" where
  "store_date fromiso draft key s =
     map_sum id (\<lambda>d. s\<lparr>inspection_date := d\<rparr>)
       (bind_err (py_item draft key) (date_fromisoformat fromiso))"

text \<open>
  \<open>load_autosave\<close>. The file is \<open>None\<close> when it does not exist; otherwise it is what
  \<open>json.load\<close> gives, the error it raises or the value it returns. The result is the
  exception that leaves the function, if any, and the session state at that point. The
  function has no \<open>try\<close>.
\<close>

definition load_autosave ::
    "(string \<Rightarrow> date option) \<Rightarrow> (py_error + json) option \<Rightarrow> session_state \<Rightarrow> py_error option \<times> session_state" where
  "load_autosave fromiso file st =
     (case file of
        None \<Rightarrow> (None, st)
      | Some (Inl e) \<Rightarrow> (Some e, st)
      | Some (Inr draft) \<Rightarrow> run_steps
         [store_item draft ''projects'' (\<lambda>v s. s\<lparr>projects := v\<rparr>),
          store_item draft ''institution_name'' (\<lambda>v s. s\<lparr>institution_name := v\<rparr>),
          store_item draft ''location'' (\<lambda>v s. s\<lparr>location := v\<rparr>),
          store_item draft ''intervention_year'' (\<lambda>v s. s\<lparr>intervention_year := v\<rparr>),
          store_date fromiso draft ''inspection_date'',
          store_item draft ''bank_charges_added'' (\<lambda>v s. s\<lparr>bank_charges_added := v\<rparr>),
          store_get draft ''bank_charges_amount'' (JNum DEFAULT_BANK_CHARGES_AMOUNT)
            (\<lambda>v s. s\<lparr>bank_charges_amount := v\<rparr>),
          store_item draft ''monitoring_team'' (\<lambda>v s. s\<lparr>monitoring_team := v\<rparr>),
          store_item draft ''approval_status'' (\<lambda>v s. s\<lparr>approval_status := v\<rparr>),
          store_item draft ''dme_officer'' (\<lambda>v s. s\<lparr>dme_officer := v\<rparr>),
          store_item draft ''approval_comments'' (\<lambda>v s. s\<lparr>approval_comments := v\<rparr>),
          store_get draft ''pdf_orientation'' (JStr ''Landscape'') (\<lambda>v s. s\<lparr>pdf_orientation := v\<rparr>),
          store_get draft ''saved_at'' JNull (\<lambda>v s. s\<lparr>draft_loaded := v\<rparr>)]
         st)"

text \<open>
  The caller, at module level after \<open>init_state()\<close>: the draft is loaded when the file
  exists and no draft was loaded before. The call stands in no \<open>try\<close> either, so the result
  is again the exception that leaves it, if any, and the session state.
\<close>

definition load_draft_at_startup ::
    "(string \<Rightarrow> date option) \<Rightarrow> (py_error + json) option \<Rightarrow> session_state \<Rightarrow> py_error option \<times> session_state" where
  "load_draft_at_startup fromiso file st =
     (if file \<noteq> None \<and> \<not> py_truthy (draft_loaded st) then load_autosave fromiso file st
      else (None, st))"

text \<open>The keys that \<open>load_autosave\<close> reads with \<open>draft[key]\<close>, in the order it reads them.\<close>

definition required_keys :: "string list" where
  "required_keys = [''projects'', ''institution_name'', ''location'', ''intervention_year'',
     ''inspection_date'', ''bank_charges_added'', ''monitoring_team'', ''approval_status'',
     ''dme_officer'', ''approval_comments'']"

text \<open>A draft object that has every required key and an inspection date that reads as
  an ISO date.\<close>

definition complete_draft :: "(string \<Rightarrow> date option) \<Rightarrow> (string \<times> json) list \<Rightarrow> bool" where
  "complete_draft fromiso kvs \<longleftrightarrow>
     list_all (\<lambda>k. map_of kvs k \<noteq> None) required_keys
     \<and> (\<exists>s d. map_of kvs ''inspection_date'' = Some (JStr s) \<and> fromiso s = Some d)"

section \<open>Properties of the summary\<close>

lemma bind_err_Inl [simp]: "bind_err (Inl e) f = Inl e"
  by (simp add: bind_err_def)

lemma bind_err_Inr [simp]: "bind_err (Inr x) f = f x"
  by (simp add: bind_err_def)

lemma num_of_is_number: "is_number v \<Longrightarrow> num_of v = Inr (the_num v)"
  by (cases v) simp_all

lemma py_sum_total:
  "(\<And>p. p \<in> set ps \<Longrightarrow> f p = Inr (g p)) \<Longrightarrow> py_sum f acc ps = Inr (acc + sum_list (map g ps))"
proof (induction ps arbitrary: acc)
  case Nil
  show ?case by simp
next
  case (Cons p ps)
  have "f p = Inr (g p)" using Cons.prems by simp
  moreover have "py_sum f (acc + g p) ps = Inr ((acc + g p) + sum_list (map g ps))"
    using Cons.IH Cons.prems by simp
  ultimately show ?case by (simp add: add.assoc)
qed

lemma count_as_sum:
  "sum_list (map (\<lambda>p. if P p then (1::int) else 0) ps) = int (length (filter P ps))"
  by (induction ps) simp_all

lemma py_sum_completed:
  assumes "\<And>p. p \<in> set ps \<Longrightarrow> numeric_row p"
  shows "py_sum completed_term 0 ps = Inr (int (length (filter (\<lambda>p. the_num (completion p) \<ge> 100) ps)))"
proof -
  have "py_sum completed_term 0 ps
      = Inr (0 + sum_list (map (\<lambda>p. if the_num (completion p) \<ge> 100 then (1::int) else 0) ps))"
    by (rule py_sum_total) (use assms in \<open>simp add: completed_term_def numeric_row_def num_of_is_number\<close>)
  then show ?thesis by (simp add: count_as_sum)
qed

lemma py_sum_approved:
  assumes "\<And>p. p \<in> set ps \<Longrightarrow> numeric_row p"
  shows "py_sum approved_term 0 ps = Inr (\<Sum>p\<leftarrow>ps. the_num (approved_cost p))"
  using py_sum_total [of ps approved_term "\<lambda>p. the_num (approved_cost p)" 0] assms
  by (simp add: approved_term_def numeric_row_def num_of_is_number)

lemma py_sum_contract:
  assumes "\<And>p. p \<in> set ps \<Longrightarrow> numeric_row p"
  shows "py_sum contract_term 0 ps = Inr (\<Sum>p\<leftarrow>ps. the_num (contract_sum p))"
  using py_sum_total [of ps contract_term "\<lambda>p. the_num (contract_sum p)" 0] assms
  by (simp add: contract_term_def numeric_row_def num_of_is_number)

lemma py_sum_disbursed:
  assumes "\<And>p. p \<in> set ps \<Longrightarrow> numeric_row p"
  shows "py_sum disbursed_term 0 ps
       = Inr (\<Sum>p\<leftarrow>ps. (the_num (disbursed p) / 100) * the_num (contract_sum p))"
  using py_sum_total [of ps disbursed_term
      "\<lambda>p. (the_num (disbursed p) / 100) * the_num (contract_sum p)" 0] assms
  by (simp add: disbursed_term_def numeric_row_def num_of_is_number)

lemma compute_summary_numeric:
  assumes "list_all numeric_row ps"
  shows "compute_summary ps added amt =
     Inr \<lparr> total_projects = int (length ps),
           completed = int (length (filter (\<lambda>p. the_num (completion p) \<ge> 100) ps)),
           in_progress = int (length ps) - int (length (filter (\<lambda>p. the_num (completion p) \<ge> 100) ps)),
           completion_rate = (if ps = [] then 0
              else real (length (filter (\<lambda>p. the_num (completion p) \<ge> 100) ps)) / real (length ps) * 100),
           total_approved = (\<Sum>p\<leftarrow>ps. the_num (approved_cost p)) + (if added then amt else 0),
           total_contract = (\<Sum>p\<leftarrow>ps. the_num (contract_sum p)) + (if added then amt else 0),
           total_disbursed = (\<Sum>p\<leftarrow>ps. (the_num (disbursed p) / 100) * the_num (contract_sum p))
                           + (if added then amt else 0),
           balance = ((\<Sum>p\<leftarrow>ps. the_num (contract_sum p)) + (if added then amt else 0))
                   - ((\<Sum>p\<leftarrow>ps. (the_num (disbursed p) / 100) * the_num (contract_sum p))
                      + (if added then amt else 0)) \<rparr>"
proof -
  have num: "\<And>p. p \<in> set ps \<Longrightarrow> numeric_row p"
    using assms by (simp add: list_all_iff)
  show ?thesis
    by (simp add: compute_summary_def Let_def
        py_sum_completed [OF num] py_sum_approved [OF num] py_sum_contract [OF num]
        py_sum_disbursed [OF num])
qed

lemma num_of_error: "num_of v = Inl e \<Longrightarrow> e = TypeError \<and> \<not> is_number v"
  by (cases v) auto

lemma py_sum_Inl:
  "py_sum f acc ps = Inl e \<Longrightarrow> \<exists>p\<in>set ps. f p = Inl e"
proof (induction ps arbitrary: acc)
  case Nil
  then show ?case by simp
next
  case (Cons p ps)
  show ?case
  proof (cases "f p")
    case (Inl e')
    with Cons.prems show ?thesis by simp
  next
    case (Inr x)
    with Cons.prems have "py_sum f (acc + x) ps = Inl e" by simp
    from Cons.IH [OF this] show ?thesis by auto
  qed
qed

lemma py_sum_Inr:
  "py_sum f acc ps = Inr r \<Longrightarrow> p \<in> set ps \<Longrightarrow> \<exists>x. f p = Inr x"
proof (induction ps arbitrary: acc)
  case Nil
  then show ?case by simp
next
  case (Cons q ps)
  show ?case
  proof (cases "f q")
    case (Inl e')
    with Cons.prems show ?thesis by simp
  next
    case (Inr x)
    with Cons.prems(1) have rest: "py_sum f (acc + x) ps = Inr r" by simp
    show ?thesis
    proof (cases "p = q")
      case True
      with Inr show ?thesis by simp
    next
      case False
      with Cons.prems(2) have "p \<in> set ps" by simp
      from Cons.IH [OF rest this] show ?thesis .
    qed
  qed
qed

lemma term_errors:
  "completed_term p = Inl e \<Longrightarrow> e = TypeError"
  "approved_term p = Inl e \<Longrightarrow> e = TypeError"
  "contract_term p = Inl e \<Longrightarrow> e = TypeError"
  "disbursed_term p = Inl e \<Longrightarrow> e = TypeError"
  by (auto simp: completed_term_def approved_term_def contract_term_def disbursed_term_def
      bind_err_def split: sum.splits dest: num_of_error)

lemma term_numbers:
  "completed_term p = Inr n \<Longrightarrow> is_number (completion p)"
  "approved_term p = Inr x \<Longrightarrow> is_number (approved_cost p)"
  "contract_term p = Inr y \<Longrightarrow> is_number (contract_sum p)"
  "disbursed_term p = Inr z \<Longrightarrow> is_number (disbursed p)"
proof -
  have n: "\<And>v r. num_of v = Inr r \<Longrightarrow> is_number v"
  proof -
    fix v r show "num_of v = Inr r \<Longrightarrow> is_number v" by (cases v) simp_all
  qed
  show "completed_term p = Inr n \<Longrightarrow> is_number (completion p)"
    by (auto simp: completed_term_def bind_err_def split: sum.splits dest: n)
  show "approved_term p = Inr x \<Longrightarrow> is_number (approved_cost p)"
    by (auto simp: approved_term_def dest: n)
  show "contract_term p = Inr y \<Longrightarrow> is_number (contract_sum p)"
    by (auto simp: contract_term_def dest: n)
  show "disbursed_term p = Inr z \<Longrightarrow> is_number (disbursed p)"
    by (auto simp: disbursed_term_def bind_err_def split: sum.splits dest: n)
qed

lemma compute_summary_error:
  assumes "compute_summary ps added amt = Inl e"
  shows "e = TypeError"
proof -
  from assms have
    "py_sum completed_term 0 ps = Inl e \<or> py_sum approved_term 0 ps = Inl e
     \<or> py_sum contract_term 0 ps = Inl e \<or> py_sum disbursed_term 0 ps = Inl e"
    by (auto simp: compute_summary_def Let_def bind_err_def split: sum.splits)
  then show ?thesis
    by (auto dest!: py_sum_Inl dest: term_errors)
qed

lemma compute_summary_success:
  assumes "compute_summary ps added amt = Inr s"
  shows "list_all numeric_row ps"
proof -
  from assms obtain a b c d where sums:
    "py_sum completed_term 0 ps = Inr a" "py_sum approved_term 0 ps = Inr b"
    "py_sum contract_term 0 ps = Inr c" "py_sum disbursed_term 0 ps = Inr d"
    by (auto simp: compute_summary_def Let_def bind_err_def split: sum.splits)
  have "numeric_row p" if "p \<in> set ps" for p
    using py_sum_Inr [OF sums(1) that] py_sum_Inr [OF sums(2) that]
      py_sum_Inr [OF sums(3) that] py_sum_Inr [OF sums(4) that]
    unfolding numeric_row_def by (auto dest: term_numbers)
  then show ?thesis by (simp add: list_all_iff)
qed

lemma compute_summary_not_numeric:
  assumes "\<not> list_all numeric_row ps"
  shows "compute_summary ps added amt = Inl TypeError"
proof (cases "compute_summary ps added amt")
  case (Inl e)
  with compute_summary_error [OF Inl] show ?thesis by simp
next
  case (Inr s)
  from compute_summary_success [OF Inr] assms show ?thesis by simp
qed

text \<open>
  Claim C1, as the code has it. For every list of projects and every rider state: when
  the completion, approved cost, contract sum and disbursed entries of every project are
  numbers, the summary is produced (no error, also on the empty list) with the number of
  projects; the number of projects with completion at least 100; their difference; the
  completion rate, 0 on the empty list; the sums of approved costs and of contract sums
  and the sum of (disbursed / 100) times the project's own contract sum, each plus the
  rider amount when the rider is enabled; and the balance, total contract minus total
  disbursed. When one of these entries is not a number the computation raises
  \<open>TypeError\<close>.
\<close>

theorem summary_fields:
  "(list_all numeric_row ps \<longrightarrow>
     (\<exists>s. compute_summary ps added amt = Inr s
       \<and> total_projects s = int (length ps)
       \<and> completed s = int (length (filter (\<lambda>p. the_num (completion p) \<ge> 100) ps))
       \<and> in_progress s = total_projects s - completed s
       \<and> completion_rate s = (if total_projects s > 0
            then real_of_int (completed s) / real_of_int (total_projects s) * 100 else 0)
       \<and> total_approved s = (\<Sum>p\<leftarrow>ps. the_num (approved_cost p)) + (if added then amt else 0)
       \<and> total_contract s = (\<Sum>p\<leftarrow>ps. the_num (contract_sum p)) + (if added then amt else 0)
       \<and> total_disbursed s = (\<Sum>p\<leftarrow>ps. (the_num (disbursed p) / 100) * the_num (contract_sum p))
            + (if added then amt else 0)
       \<and> summary.balance s = total_contract s - total_disbursed s))
   \<and> (\<not> list_all numeric_row ps \<longrightarrow> compute_summary ps added amt = Inl TypeError)"
proof (intro conjI impI)
  assume h: "list_all numeric_row ps"
  show "\<exists>s. compute_summary ps added amt = Inr s
       \<and> total_projects s = int (length ps)
       \<and> completed s = int (length (filter (\<lambda>p. the_num (completion p) \<ge> 100) ps))
       \<and> in_progress s = total_projects s - completed s
       \<and> completion_rate s = (if total_projects s > 0
            then real_of_int (completed s) / real_of_int (total_projects s) * 100 else 0)
       \<and> total_approved s = (\<Sum>p\<leftarrow>ps. the_num (approved_cost p)) + (if added then amt else 0)
       \<and> total_contract s = (\<Sum>p\<leftarrow>ps. the_num (contract_sum p)) + (if added then amt else 0)
       \<and> total_disbursed s = (\<Sum>p\<leftarrow>ps. (the_num (disbursed p) / 100) * the_num (contract_sum p))
            + (if added then amt else 0)
       \<and> summary.balance s = total_contract s - total_disbursed s"
    by (simp add: compute_summary_numeric [OF h])
next
  assume "\<not> list_all numeric_row ps"
  then show "compute_summary ps added amt = Inl TypeError"
    by (rule compute_summary_not_numeric)
qed

theorem summary_fields_witness:
  "list_all numeric_row
     [DEFAULT_PROJECT\<lparr>approved_cost := Num 1000, contract_sum := Num 1000, disbursed := Num 50\<rparr>,
      DEFAULT_PROJECT\<lparr>approved_cost := Num 2000, contract_sum := Num 2000, disbursed := Num 100,
        completion := Num 100\<rparr>]
   \<and> compute_summary
     [DEFAULT_PROJECT\<lparr>approved_cost := Num 1000, contract_sum := Num 1000, disbursed := Num 50\<rparr>,
      DEFAULT_PROJECT\<lparr>approved_cost := Num 2000, contract_sum := Num 2000, disbursed := Num 100,
        completion := Num 100\<rparr>] False 215013
     = Inr \<lparr> total_projects = 2, completed = 1, in_progress = 1, completion_rate = 50,
             total_approved = 3000, total_contract = 3000, total_disbursed = 2500,
             balance = 500 \<rparr>
   \<and> \<not> list_all numeric_row [DEFAULT_PROJECT\<lparr>contract_sum := Str ''n/a''\<rparr>]
   \<and> compute_summary [DEFAULT_PROJECT\<lparr>contract_sum := Str ''n/a''\<rparr>] True 215013 = Inl TypeError"
proof -
  define ps where "ps =
     [DEFAULT_PROJECT\<lparr>approved_cost := Num 1000, contract_sum := Num 1000, disbursed := Num 50\<rparr>,
      DEFAULT_PROJECT\<lparr>approved_cost := Num 2000, contract_sum := Num 2000, disbursed := Num 100,
        completion := Num 100\<rparr>]"
  define qs where "qs = [DEFAULT_PROJECT\<lparr>contract_sum := Str ''n/a''\<rparr>]"
  have h: "list_all numeric_row ps"
    by (simp add: ps_def numeric_row_def DEFAULT_PROJECT_def)
  have n: "\<not> list_all numeric_row qs"
    by (simp add: qs_def numeric_row_def DEFAULT_PROJECT_def)
  have v: "length ps = 2" "length (filter (\<lambda>p. the_num (completion p) \<ge> 100) ps) = 1"
      "(\<Sum>p\<leftarrow>ps. the_num (approved_cost p)) = 3000" "(\<Sum>p\<leftarrow>ps. the_num (contract_sum p)) = 3000"
      "(\<Sum>p\<leftarrow>ps. (the_num (disbursed p) / 100) * the_num (contract_sum p)) = 2500"
    by (simp_all add: ps_def DEFAULT_PROJECT_def)
  from summary_fields [of ps False 215013, THEN conjunct1, THEN mp, OF h] obtain s where
    s: "compute_summary ps False 215013 = Inr s"
      "total_projects s = int (length ps)"
      "completed s = int (length (filter (\<lambda>p. the_num (completion p) \<ge> 100) ps))"
      "in_progress s = total_projects s - completed s"
      "completion_rate s = (if total_projects s > 0
          then real_of_int (completed s) / real_of_int (total_projects s) * 100 else 0)"
      "total_approved s = (\<Sum>p\<leftarrow>ps. the_num (approved_cost p)) + (if False then 215013 else 0)"
      "total_contract s = (\<Sum>p\<leftarrow>ps. the_num (contract_sum p)) + (if False then 215013 else 0)"
      "total_disbursed s = (\<Sum>p\<leftarrow>ps. (the_num (disbursed p) / 100) * the_num (contract_sum p))
          + (if False then 215013 else 0)"
      "summary.balance s = total_contract s - total_disbursed s"
    by (elim exE conjE)
  have "s = \<lparr> total_projects = 2, completed = 1, in_progress = 1, completion_rate = 50,
             total_approved = 3000, total_contract = 3000, total_disbursed = 2500,
             balance = 500 \<rparr>"
    using s(2-9) unfolding v by (cases s) simp
  with s(1) have ok: "compute_summary ps False 215013
     = Inr \<lparr> total_projects = 2, completed = 1, in_progress = 1, completion_rate = 50,
             total_approved = 3000, total_contract = 3000, total_disbursed = 2500,
             balance = 500 \<rparr>" by simp
  note err = summary_fields [of qs True 215013, THEN conjunct2, THEN mp, OF n]
  from h ok n err show ?thesis unfolding ps_def qs_def by (intro conjI)
qed

text \<open>
  With the rider enabled the totals are not the plain sums that claim C1 states: one
  project of approved cost 1000 and the default rider amount give a total approved of
  216013.
\<close>

theorem summary_rider_counterexample:
  "map_sum id total_approved
     (compute_summary [DEFAULT_PROJECT\<lparr>approved_cost := Num 1000\<rparr>] True 215013) = Inr 216013
   \<and> sum_list (map (the_num \<circ> approved_cost) [DEFAULT_PROJECT\<lparr>approved_cost := Num 1000\<rparr>]) = 1000
   \<and> map_sum id total_approved
     (compute_summary [DEFAULT_PROJECT\<lparr>approved_cost := Num 1000\<rparr>] True 215013)
     \<noteq> Inr (sum_list (map (the_num \<circ> approved_cost) [DEFAULT_PROJECT\<lparr>approved_cost := Num 1000\<rparr>]))"
  by (simp add: compute_summary_def DEFAULT_PROJECT_def completed_term_def approved_term_def
      contract_term_def disbursed_term_def)

subsection \<open>The summary in binary floating point\<close>

text \<open>\<open>ilog2\<close> is the position of the leading bit, and \<open>exponent\<close> the binary exponent.\<close>

lemma ilog2_small: "n < 2 \<Longrightarrow> ilog2 n = 0"
  by (simp add: ilog2.simps)
lemma ilog2_big: "\<not> n < 2 \<Longrightarrow> ilog2 n = Suc (ilog2 (n div 2))"
  by (subst ilog2.simps) simp

lemma ilog2_bounds: "0 < n \<Longrightarrow> 2 ^ ilog2 n \<le> n \<and> n < 2 ^ Suc (ilog2 n)"
proof (induction n rule: ilog2.induct)
  case (1 n)
  show ?case
  proof (cases "n < 2")
    case True
    with "1.prems" show ?thesis by (simp add: ilog2_small)
  next
    case False
    then have pos: "0 < n div 2" by simp
    from "1.IH" [OF False pos] have lo: "2 ^ ilog2 (n div 2) \<le> n div 2"
      and hi: "n div 2 < 2 ^ Suc (ilog2 (n div 2))" by simp_all
    have "2 * 2 ^ ilog2 (n div 2) \<le> 2 * (n div 2)" using lo by simp
    also have "\<dots> \<le> n" by simp
    finally have a: "2 ^ Suc (ilog2 (n div 2)) \<le> n" by simp
    have "n div 2 + 1 \<le> 2 ^ Suc (ilog2 (n div 2))" using hi by simp
    then have "2 * (n div 2 + 1) \<le> 2 * 2 ^ Suc (ilog2 (n div 2))" by simp
    moreover have "n < 2 * (n div 2 + 1)" by arith
    ultimately have b: "n < 2 ^ Suc (Suc (ilog2 (n div 2)))" by simp
    from a b show ?thesis by (simp add: ilog2_big [OF False])
  qed
qed


lemma pow2_nonneg: "pow2 (int k) = 2 ^ k"
  by (simp add: pow2_def)

lemma pow2_neg: "pow2 (- int k) = 1 / 2 ^ k"
  by (cases "k = 0") (simp_all add: pow2_def)

lemma exponent_bounds:
  assumes "0 < a"
  shows "pow2 (exponent a) \<le> a \<and> a < pow2 (exponent a + 1)"
proof (cases "1 \<le> a")
  case True
  define n where "n = nat \<lfloor>a\<rfloor>"
  have n1: "0 < n" using True by (simp add: n_def)
  have na: "real n \<le> a" "a < real n + 1"
    using True by (simp_all add: n_def)
  from ilog2_bounds [OF n1] have lo: "2 ^ ilog2 n \<le> n" and hi: "n < 2 ^ Suc (ilog2 n)" by simp_all
  have "(2::real) ^ ilog2 n \<le> real n" using lo by (metis of_nat_le_iff of_nat_numeral of_nat_power)
  then have a: "2 ^ ilog2 n \<le> a" using na(1) by linarith
  have "n + 1 \<le> 2 ^ Suc (ilog2 n)" using hi by simp
  then have "real (n + 1) \<le> 2 ^ Suc (ilog2 n)" by (metis of_nat_le_iff of_nat_numeral of_nat_power)
  then have b: "a < 2 ^ Suc (ilog2 n)" using na(2) by simp
  have e: "exponent a = int (ilog2 n)" using True by (simp add: exponent_def n_def)
  have e1: "exponent a + 1 = int (Suc (ilog2 n))" using e by simp
  show ?thesis unfolding e1 unfolding e pow2_nonneg using a b by simp
next
  case False
  define b where "b = 1 / a"
  have b1: "1 < b" using False assms by (simp add: b_def)
  define n where "n = nat \<lfloor>b\<rfloor>"
  define k where "k = ilog2 n"
  have n1: "0 < n" using b1 by (simp add: n_def)
  have nb: "real n \<le> b" "b < real n + 1"
    using b1 by (simp_all add: n_def)
  from ilog2_bounds [OF n1] have lo: "2 ^ k \<le> n" and hi: "n < 2 ^ Suc k" by (simp_all add: k_def)
  have "(2::real) ^ k \<le> real n" using lo by (metis of_nat_le_iff of_nat_numeral of_nat_power)
  then have kb: "2 ^ k \<le> b" using nb(1) by linarith
  have "n + 1 \<le> 2 ^ Suc k" using hi by simp
  then have "real (n + 1) \<le> 2 ^ Suc k" by (metis of_nat_le_iff of_nat_numeral of_nat_power)
  then have bk: "b < 2 ^ Suc k" using nb(2) by simp
  have ak: "a * 2 ^ k \<le> 1" using kb assms by (simp add: b_def field_simps)
  have ka: "1 < a * 2 ^ Suc k" using bk assms by (simp add: b_def field_simps)
  show ?thesis
  proof (cases "a * 2 ^ k = 1")
    case True
    have e: "exponent a = - int k"
      using False True by (simp add: exponent_def Let_def b_def [symmetric] n_def [symmetric] k_def [symmetric])
    have k0: "k \<noteq> 0" using True False by (cases k) auto
    then obtain j where j: "k = Suc j" by (cases k) auto
    have e1: "exponent a + 1 = - int j" using e j by simp
    have a: "a = 1 / 2 ^ k" using True by (simp add: field_simps)
    have "a < 1 / 2 ^ j" unfolding a j by (simp add: field_simps)
    then show ?thesis unfolding e1 unfolding e pow2_neg using a by simp
  next
    case ne: False
    have e: "exponent a = - int (Suc k)"
      using False ne by (simp add: exponent_def Let_def b_def [symmetric] n_def [symmetric] k_def [symmetric])
    have e1: "exponent a + 1 = - int k" using e by simp
    have lo': "1 / 2 ^ Suc k < a" using ka by (simp add: field_simps)
    have "a * 2 ^ k < 1" using ak ne by simp
    then have hi': "a < 1 / 2 ^ k" by (simp add: field_simps)
    show ?thesis unfolding e1 unfolding e pow2_neg using lo' hi' by simp
  qed
qed


lemma py_sum_terms:
  "py_sum f acc ps = bind_err (py_terms f ps) (\<lambda>xs. Inr (acc + sum_list xs))"
proof (induction ps arbitrary: acc)
  case Nil
  show ?case by simp
next
  case (Cons p ps)
  show ?case
  proof (cases "f p")
    case (Inl e)
    then show ?thesis by simp
  next
    case (Inr x)
    show ?thesis
    proof (cases "py_terms f ps")
      case (Inl e)
      with Inr Cons.IH [of "acc + x"] show ?thesis by simp
    next
      case xs: (Inr xs)
      with Inr Cons.IH [of "acc + x"] show ?thesis by (simp add: add.assoc)
    qed
  qed
qed

lemma disbursed_term_fl_exact: "disbursed_term_fl (\<lambda>x. x) = disbursed_term"
  by (rule ext) (simp add: disbursed_term_fl_def disbursed_term_def)

lemma compute_summary_fl_exact:
  "compute_summary_fl (\<lambda>x. x) sum_list ps added amt = compute_summary ps added amt"
  by (simp add: compute_summary_fl_def compute_summary_def py_sum_terms disbursed_term_fl_exact
      Let_def bind_err_def split: sum.splits)

text \<open>
  The float operations of the example below, one by one: the inputs 1000.1 and 33.3 as
  floats, the division by 100, the product, the balance without the rider, the two
  additions of 215013.0 and the balance with the rider.
\<close>

lemma binary64_values:
  "binary64 (10001 / 10) = 8796972631510221 / 2 ^ 43"
  "binary64 (333 / 10) = 4686558362232422 / 2 ^ 47"
  "binary64 (4686558362232422 / 2 ^ 47 / 100) = 5998794703657500 / 2 ^ 54"
  "binary64 (5998794703657500 / 2 ^ 54 * (8796972631510221 / 2 ^ 43)) = 5858783772585807 / 2 ^ 44"
  "binary64 (8796972631510221 / 2 ^ 43 - 5858783772585807 / 2 ^ 44) = 2933790372608659 / 2 ^ 42"
  "binary64 (8796972631510221 / 2 ^ 43 + 215013) = 7422153600060621 / 2 ^ 35"
  "binary64 (5858783772585807 / 2 ^ 44 + 215013) = 924904170346827 / 2 ^ 32"
  "binary64 (7422153600060621 / 2 ^ 35 - 924904170346827 / 2 ^ 32) = 22920237286005 / 2 ^ 35"
  "binary64 (8796972631510221 / 2 ^ 43) = 8796972631510221 / 2 ^ 43"
  "binary64 (5858783772585807 / 2 ^ 44) = 5858783772585807 / 2 ^ 44"
  "binary64 215013 = 215013"
  by (simp_all add: binary64_def exponent_def ilog2_small ilog2_big Let_def pow2_def
      round_half_even_def)

text \<open>
  Claim C3, as the code has it. For every project list, every rider amount, every rounding
  of one float operation and every summation: when the summary without the rider raises,
  the summary with the rider raises the same error; otherwise the summary with the rider
  is produced, its total approved, total contract and total disbursed are those without
  the rider plus the rider amount, each by one rounded addition, and its counts and
  completion rate are the same. The balance is in both the rounded difference of total
  contract and total disbursed; with the rider it is the same as without whenever the
  additions to total contract and total disbursed are exact. In exact arithmetic (no
  rounding, plain sums) the summary is \<open>compute_summary\<close>, where they always are.
\<close>

theorem rider_adds_amount_rounded:
  "(case compute_summary_fl rnd fsum ps False amt of
      Inl e \<Rightarrow> compute_summary_fl rnd fsum ps True amt = Inl e
    | Inr s \<Rightarrow> (\<exists>s'. compute_summary_fl rnd fsum ps True amt = Inr s'
        \<and> total_approved s' = rnd (total_approved s + amt)
        \<and> total_contract s' = rnd (total_contract s + amt)
        \<and> total_disbursed s' = rnd (total_disbursed s + amt)
        \<and> summary.balance s = rnd (total_contract s - total_disbursed s)
        \<and> summary.balance s' = rnd (total_contract s' - total_disbursed s')
        \<and> (total_contract s' = total_contract s + amt \<and> total_disbursed s' = total_disbursed s + amt
              \<longrightarrow> summary.balance s' = summary.balance s)
        \<and> total_projects s' = total_projects s
        \<and> completed s' = completed s
        \<and> in_progress s' = in_progress s
        \<and> completion_rate s' = completion_rate s))
   \<and> compute_summary_fl (\<lambda>x. x) sum_list ps added amt = compute_summary ps added amt"
  by (simp add: compute_summary_fl_exact)
    (simp add: compute_summary_fl_def Let_def bind_err_def split: sum.splits)

theorem rider_adds_amount_rounded_witness:
  "compute_summary_fl binary64 (fold_sum binary64)
     [DEFAULT_PROJECT\<lparr>approved_cost := Num 1000, contract_sum := Num 1000, disbursed := Num 50\<rparr>]
     False 215013
     = Inr \<lparr> total_projects = 1, completed = 0, in_progress = 1, completion_rate = 0,
             total_approved = 1000, total_contract = 1000, total_disbursed = 500,
             balance = 500 \<rparr>
   \<and> map_sum id total_approved (compute_summary_fl binary64 (fold_sum binary64)
     [DEFAULT_PROJECT\<lparr>approved_cost := Num 1000, contract_sum := Num 1000, disbursed := Num 50\<rparr>]
     True 215013) = Inr 216013
   \<and> map_sum id total_contract (compute_summary_fl binary64 (fold_sum binary64)
     [DEFAULT_PROJECT\<lparr>approved_cost := Num 1000, contract_sum := Num 1000, disbursed := Num 50\<rparr>]
     True 215013) = Inr 216013
   \<and> map_sum id total_disbursed (compute_summary_fl binary64 (fold_sum binary64)
     [DEFAULT_PROJECT\<lparr>approved_cost := Num 1000, contract_sum := Num 1000, disbursed := Num 50\<rparr>]
     True 215013) = Inr 215513
   \<and> map_sum id summary.balance (compute_summary_fl binary64 (fold_sum binary64)
     [DEFAULT_PROJECT\<lparr>approved_cost := Num 1000, contract_sum := Num 1000, disbursed := Num 50\<rparr>]
     True 215013) = Inr 500"
proof -
  define ps where "ps =
     [DEFAULT_PROJECT\<lparr>approved_cost := Num 1000, contract_sum := Num 1000, disbursed := Num 50\<rparr>]"
  define s where "s = \<lparr> total_projects = 1, completed = 0, in_progress = 1, completion_rate = 0,
             total_approved = 1000, total_contract = 1000, total_disbursed = 500,
             balance = 500 \<rparr>"
  have off: "compute_summary_fl binary64 (fold_sum binary64) ps False 215013 = Inr s"
    by (simp add: ps_def s_def compute_summary_fl_def DEFAULT_PROJECT_def completed_term_def
        approved_term_def contract_term_def disbursed_term_fl_def fold_sum_def binary64_def
        exponent_def ilog2_small ilog2_big pow2_def round_half_even_def Let_def)
  have r: "binary64 216013 = 216013" "binary64 215513 = 215513"
    by (simp_all add: binary64_def exponent_def ilog2_small ilog2_big pow2_def
        round_half_even_def Let_def)
  have sel: "total_approved s + 215013 = 216013" "total_contract s + 215013 = 216013"
      "total_disbursed s + 215013 = 215513" "summary.balance s = 500"
    by (simp_all add: s_def)
  from rider_adds_amount_rounded [of binary64 "fold_sum binary64" ps 215013, THEN conjunct1,
      unfolded off sum.case]
  obtain s' where s': "compute_summary_fl binary64 (fold_sum binary64) ps True 215013 = Inr s'"
      "total_approved s' = binary64 (total_approved s + 215013)"
      "total_contract s' = binary64 (total_contract s + 215013)"
      "total_disbursed s' = binary64 (total_disbursed s + 215013)"
      "total_contract s' = total_contract s + 215013 \<and> total_disbursed s' = total_disbursed s + 215013
         \<longrightarrow> summary.balance s' = summary.balance s"
    by (elim exE conjE)
  have exact: "total_contract s' = total_contract s + 215013"
      "total_disbursed s' = total_disbursed s + 215013"
    by (simp_all add: s'(3,4) sel r)
  from s'(5) exact have bal: "summary.balance s' = 500" unfolding sel(4) by simp
  have on: "map_sum id total_approved (compute_summary_fl binary64 (fold_sum binary64) ps True 215013) = Inr 216013"
      "map_sum id total_contract (compute_summary_fl binary64 (fold_sum binary64) ps True 215013) = Inr 216013"
      "map_sum id total_disbursed (compute_summary_fl binary64 (fold_sum binary64) ps True 215013) = Inr 215513"
      "map_sum id summary.balance (compute_summary_fl binary64 (fold_sum binary64) ps True 215013) = Inr 500"
    by (simp_all add: s'(1,2,3,4) sel r bal)
  from off on show ?thesis unfolding ps_def s_def by (intro conjI)
qed

text \<open>
  In floats the balance is not always the same with and without the rider. One project
  with contract sum 1000.1 and disbursed 33.3, and the rider amount 215013.0: without the
  rider the balance is the float 667.0667000000001, with the rider it is
  667.0666999999958; and the total contract with the rider, 216013.1 as a float, is not
  the total contract without it plus the amount.
\<close>

theorem rider_balance_counterexample:
  "map_sum id summary.balance
     (compute_summary_fl binary64 (fold_sum binary64)
        [DEFAULT_PROJECT\<lparr>contract_sum := Num (binary64 (10001 / 10)),
           disbursed := Num (binary64 (333 / 10))\<rparr>] False 215013)
     = Inr (2933790372608659 / 2 ^ 42)
   \<and> map_sum id summary.balance
     (compute_summary_fl binary64 (fold_sum binary64)
        [DEFAULT_PROJECT\<lparr>contract_sum := Num (binary64 (10001 / 10)),
           disbursed := Num (binary64 (333 / 10))\<rparr>] True 215013)
     = Inr (22920237286005 / 2 ^ 35)
   \<and> (2933790372608659 / 2 ^ 42 :: real) \<noteq> 22920237286005 / 2 ^ 35
   \<and> map_sum id total_contract
     (compute_summary_fl binary64 (fold_sum binary64)
        [DEFAULT_PROJECT\<lparr>contract_sum := Num (binary64 (10001 / 10)),
           disbursed := Num (binary64 (333 / 10))\<rparr>] False 215013)
     = Inr (8796972631510221 / 2 ^ 43)
   \<and> map_sum id total_contract
     (compute_summary_fl binary64 (fold_sum binary64)
        [DEFAULT_PROJECT\<lparr>contract_sum := Num (binary64 (10001 / 10)),
           disbursed := Num (binary64 (333 / 10))\<rparr>] True 215013)
     = Inr (7422153600060621 / 2 ^ 35)
   \<and> (7422153600060621 / 2 ^ 35 :: real) \<noteq> 8796972631510221 / 2 ^ 43 + 215013"
proof -
  have off: "compute_summary_fl binary64 (fold_sum binary64)
        [DEFAULT_PROJECT\<lparr>contract_sum := Num (binary64 (10001 / 10)),
           disbursed := Num (binary64 (333 / 10))\<rparr>] False 215013
      = Inr \<lparr> total_projects = 1, completed = 0, in_progress = 1, completion_rate = 0,
              total_approved = 0, total_contract = 8796972631510221 / 2 ^ 43,
              total_disbursed = 5858783772585807 / 2 ^ 44,
              balance = 2933790372608659 / 2 ^ 42 \<rparr>"
    by (simp add: compute_summary_fl_def DEFAULT_PROJECT_def completed_term_def approved_term_def
        contract_term_def disbursed_term_fl_def fold_sum_def binary64_def exponent_def
        ilog2_small ilog2_big pow2_def round_half_even_def Let_def)
  have on: "compute_summary_fl binary64 (fold_sum binary64)
        [DEFAULT_PROJECT\<lparr>contract_sum := Num (binary64 (10001 / 10)),
           disbursed := Num (binary64 (333 / 10))\<rparr>] True 215013
      = Inr \<lparr> total_projects = 1, completed = 0, in_progress = 1, completion_rate = 0,
              total_approved = 215013, total_contract = 7422153600060621 / 2 ^ 35,
              total_disbursed = 924904170346827 / 2 ^ 32,
              balance = 22920237286005 / 2 ^ 35 \<rparr>"
    by (simp add: compute_summary_fl_def DEFAULT_PROJECT_def completed_term_def approved_term_def
        contract_term_def disbursed_term_fl_def fold_sum_def binary64_def exponent_def
        ilog2_small ilog2_big pow2_def round_half_even_def Let_def)
  have ne: "(2933790372608659 / 2 ^ 42 :: real) \<noteq> 22920237286005 / 2 ^ 35"
      "(7422153600060621 / 2 ^ 35 :: real) \<noteq> 8796972631510221 / 2 ^ 43 + 215013"
    by simp_all
  show ?thesis unfolding off on using ne by simp
qed

section \<open>Properties of recalc_projects\<close>

lemma recalc_projects_map:
  "recalc_projects parse df =
     map (\<lambda>(i, r). r\<lparr> disbursed := Num (fillna (to_numeric parse (disbursed r)) 0),
                       completion := Num (fillna (to_numeric parse (completion r)) 0),
                       balance := Num (100 - fillna (to_numeric parse (disbursed r)) 0),
                       s_no := Num (real i) \<rparr>) (enumerate 1 df)"
  by (simp add: recalc_projects_def Let_def enumerate_eq_zip zip_map2 comp_def case_prod_beta)

lemma length_recalc_projects: "length (recalc_projects parse df) = length df"
  by (simp add: recalc_projects_map)

lemma nth_recalc_projects:
  assumes "i < length df"
  shows "recalc_projects parse df ! i =
     (df ! i)\<lparr> disbursed := Num (fillna (to_numeric parse (disbursed (df ! i))) 0),
               completion := Num (fillna (to_numeric parse (completion (df ! i))) 0),
               balance := Num (100 - fillna (to_numeric parse (disbursed (df ! i))) 0),
               s_no := Num (real (i + 1)) \<rparr>"
  using assms by (simp add: recalc_projects_map nth_enumerate_eq)

lemma s_no_recalc_projects:
  "map s_no (recalc_projects parse df) = map (\<lambda>i. Num (real i)) [1..<length df + 1]"
  by (rule nth_equalityI)
    (simp_all del: upt_Suc add: length_recalc_projects nth_recalc_projects nth_append)

text \<open>
  Claim C2. For every frame of projects, whatever its disbursed and completion cells
  hold: after \<open>recalc_projects\<close> the frame has the same number of rows; the sequence numbers
  are exactly 1..N in list order; and in every row disbursed and completion are numbers,
  the value that was there, or 0 where the cell was \<open>None\<close> or a string that is not a
  number; balance is a number and balance + disbursed = 100.
\<close>

theorem recalc_balance_and_sequence:
  "length (recalc_projects parse df) = length df
   \<and> map s_no (recalc_projects parse df) = map (\<lambda>i. Num (real i)) [1..<length df + 1]
   \<and> (\<forall>i<length df.
        s_no (recalc_projects parse df ! i) = Num (real (i + 1))
      \<and> disbursed (recalc_projects parse df ! i) = Num (fillna (to_numeric parse (disbursed (df ! i))) 0)
      \<and> completion (recalc_projects parse df ! i) = Num (fillna (to_numeric parse (completion (df ! i))) 0)
      \<and> (to_numeric parse (disbursed (df ! i)) = None \<longrightarrow> disbursed (recalc_projects parse df ! i) = Num 0)
      \<and> (to_numeric parse (completion (df ! i)) = None \<longrightarrow> completion (recalc_projects parse df ! i) = Num 0)
      \<and> is_number (disbursed (recalc_projects parse df ! i))
      \<and> is_number (completion (recalc_projects parse df ! i))
      \<and> is_number (project_row.balance (recalc_projects parse df ! i))
      \<and> the_num (project_row.balance (recalc_projects parse df ! i))
          + the_num (disbursed (recalc_projects parse df ! i)) = 100)"
  by (simp add: length_recalc_projects s_no_recalc_projects nth_recalc_projects fillna_def)

theorem recalc_balance_and_sequence_witness:
  "length (recalc_projects (\<lambda>s. None)
     [DEFAULT_PROJECT\<lparr>s_no := NoneV, disbursed := Str ''n/a'', balance := Num 7\<rparr>,
      DEFAULT_PROJECT\<lparr>s_no := Num 9, disbursed := Num 30, completion := NoneV\<rparr>]) = 2
   \<and> map s_no (recalc_projects (\<lambda>s. None)
     [DEFAULT_PROJECT\<lparr>s_no := NoneV, disbursed := Str ''n/a'', balance := Num 7\<rparr>,
      DEFAULT_PROJECT\<lparr>s_no := Num 9, disbursed := Num 30, completion := NoneV\<rparr>]) = [Num 1, Num 2]
   \<and> disbursed (recalc_projects (\<lambda>s. None)
     [DEFAULT_PROJECT\<lparr>s_no := NoneV, disbursed := Str ''n/a'', balance := Num 7\<rparr>,
      DEFAULT_PROJECT\<lparr>s_no := Num 9, disbursed := Num 30, completion := NoneV\<rparr>] ! 0) = Num 0
   \<and> the_num (project_row.balance (recalc_projects (\<lambda>s. None)
     [DEFAULT_PROJECT\<lparr>s_no := NoneV, disbursed := Str ''n/a'', balance := Num 7\<rparr>,
      DEFAULT_PROJECT\<lparr>s_no := Num 9, disbursed := Num 30, completion := NoneV\<rparr>] ! 0)) + 0 = 100
   \<and> disbursed (recalc_projects (\<lambda>s. None)
     [DEFAULT_PROJECT\<lparr>s_no := NoneV, disbursed := Str ''n/a'', balance := Num 7\<rparr>,
      DEFAULT_PROJECT\<lparr>s_no := Num 9, disbursed := Num 30, completion := NoneV\<rparr>] ! 1) = Num 30
   \<and> completion (recalc_projects (\<lambda>s. None)
     [DEFAULT_PROJECT\<lparr>s_no := NoneV, disbursed := Str ''n/a'', balance := Num 7\<rparr>,
      DEFAULT_PROJECT\<lparr>s_no := Num 9, disbursed := Num 30, completion := NoneV\<rparr>] ! 1) = Num 0
   \<and> the_num (project_row.balance (recalc_projects (\<lambda>s. None)
     [DEFAULT_PROJECT\<lparr>s_no := NoneV, disbursed := Str ''n/a'', balance := Num 7\<rparr>,
      DEFAULT_PROJECT\<lparr>s_no := Num 9, disbursed := Num 30, completion := NoneV\<rparr>] ! 1)) + 30 = 100"
proof -
  define df where "df = [DEFAULT_PROJECT\<lparr>s_no := NoneV, disbursed := Str ''n/a'', balance := Num 7\<rparr>,
      DEFAULT_PROJECT\<lparr>s_no := Num 9, disbursed := Num 30, completion := NoneV\<rparr>]"
  define out where "out = recalc_projects (\<lambda>s. None) df"
  have ldf: "length df = 2" by (simp add: df_def)
  have d0: "to_numeric (\<lambda>s. None) (disbursed (df ! 0)) = None"
    and d1: "to_numeric (\<lambda>s. None) (disbursed (df ! Suc 0)) = Some 30"
    and c1: "to_numeric (\<lambda>s. None) (completion (df ! Suc 0)) = None"
    by (simp_all add: df_def DEFAULT_PROJECT_def)
  note inst = recalc_balance_and_sequence [of "\<lambda>s. None" df, folded out_def, unfolded ldf]
  have len: "length out = 2" using inst by blast
  have sn: "map s_no out = [Num 1, Num 2]"
    using conjunct1 [OF conjunct2 [OF inst]] by (simp add: upt_rec)
  have rows: "\<forall>i<2.
        disbursed (out ! i) = Num (fillna (to_numeric (\<lambda>s. None) (disbursed (df ! i))) 0)
      \<and> completion (out ! i) = Num (fillna (to_numeric (\<lambda>s. None) (completion (df ! i))) 0)
      \<and> the_num (project_row.balance (out ! i)) + the_num (disbursed (out ! i)) = 100"
    using conjunct2 [OF conjunct2 [OF inst]] by blast
  have r0: "disbursed (out ! 0) = Num 0"
      "the_num (project_row.balance (out ! 0)) + the_num (disbursed (out ! 0)) = 100"
    using rows [rule_format, of 0] by (auto simp add: d0 fillna_def)
  have r1: "disbursed (out ! 1) = Num 30" "completion (out ! 1) = Num 0"
      "the_num (project_row.balance (out ! 1)) + the_num (disbursed (out ! 1)) = 100"
    using rows [rule_format, of 1] by (auto simp add: d1 c1 fillna_def)
  from r0(2) have b0: "the_num (project_row.balance (out ! 0)) + 0 = 100"
    unfolding r0(1) by simp
  from r1(3) have b1: "the_num (project_row.balance (out ! 1)) + 30 = 100"
    unfolding r1(1) by simp
  from len sn r0(1) b0 r1(1) r1(2) b1 show ?thesis
    unfolding out_def df_def by blast
qed

text \<open>Claim C5. \<open>recalc_projects\<close> is idempotent: applied twice it gives the frame that one
  application gives.\<close>

theorem recalc_projects_idempotent:
  "recalc_projects parse (recalc_projects parse df) = recalc_projects parse df"
  by (rule nth_equalityI) (simp_all add: length_recalc_projects nth_recalc_projects fillna_def)

text \<open>
  Claim C10. \<open>recalc_projects\<close> keeps the number of rows and, row by row in the same order,
  the name, the approved cost, the contract sum, the quality, the compliance, the
  observations, the document status and the recommendation: only disbursed, completion,
  balance and the sequence number of a row can differ from what they were.
\<close>

theorem recalc_projects_frame:
  "length (recalc_projects parse df) = length df
   \<and> map project (recalc_projects parse df) = map project df
   \<and> map approved_cost (recalc_projects parse df) = map approved_cost df
   \<and> map contract_sum (recalc_projects parse df) = map contract_sum df
   \<and> map quality (recalc_projects parse df) = map quality df
   \<and> map compliance (recalc_projects parse df) = map compliance df
   \<and> map other_obs (recalc_projects parse df) = map other_obs df
   \<and> map docs (recalc_projects parse df) = map docs df
   \<and> map recommendation (recalc_projects parse df) = map recommendation df
   \<and> map (\<lambda>r. r\<lparr>disbursed := NoneV, completion := NoneV, balance := NoneV, s_no := NoneV\<rparr>)
        (recalc_projects parse df)
     = map (\<lambda>r. r\<lparr>disbursed := NoneV, completion := NoneV, balance := NoneV, s_no := NoneV\<rparr>) df"
  by (intro conjI nth_equalityI) (simp_all add: length_recalc_projects nth_recalc_projects)

section \<open>Properties of adding and removing projects\<close>

text \<open>
  Claim C8. \<open>add_project\<close> appends one project, the default project with sequence number
  len + 1, and \<open>remove_last_project\<close> after it gives back exactly the list there was, field
  contents and sequence numbers.
\<close>

theorem add_then_remove_last:
  "add_project ps = ps @ [DEFAULT_PROJECT\<lparr>s_no := Num (real (length ps + 1))\<rparr>]
   \<and> remove_last_project (add_project ps) = ps
   \<and> map s_no (remove_last_project (add_project ps)) = map s_no ps"
  by (simp add: remove_last_project_def add_project_def)

section \<open>Properties of the renderer's call\<close>

text \<open>
  Claim C4. In every state with the rider enabled: when the numeric entries of the stored
  projects are numbers, so that the summary is produced, the renderer is called on the
  stored list followed by exactly one more row, whose approved cost and contract sum are
  the rider amount, disbursed 100, balance 0, completion 100, quality and compliance N/A;
  the summary passed with it is the one computed from the stored list, so the row is
  appended at the call and not inside the aggregator (the summary counts the stored
  projects); and the summary's total approved, total contract and total disbursed are the
  sums over the rows the renderer receives. When an entry is not a number the summary
  raises and the call is not reached.
\<close>

theorem rider_row_at_call_boundary:
  "(list_all numeric_row ps \<longrightarrow>
     (\<exists>s. compute_summary ps True amt = Inr s
       \<and> pdf_call ps True amt = Inr (ps @ [bank_charges_project amt], s)
       \<and> approved_cost (bank_charges_project amt) = Num amt
       \<and> contract_sum (bank_charges_project amt) = Num amt
       \<and> disbursed (bank_charges_project amt) = Num 100
       \<and> project_row.balance (bank_charges_project amt) = Num 0
       \<and> completion (bank_charges_project amt) = Num 100
       \<and> quality (bank_charges_project amt) = Str ''N/A''
       \<and> compliance (bank_charges_project amt) = Str ''N/A''
       \<and> total_projects s = int (length ps)
       \<and> total_approved s = (\<Sum>p\<leftarrow>ps @ [bank_charges_project amt]. the_num (approved_cost p))
       \<and> total_contract s = (\<Sum>p\<leftarrow>ps @ [bank_charges_project amt]. the_num (contract_sum p))
       \<and> total_disbursed s
           = (\<Sum>p\<leftarrow>ps @ [bank_charges_project amt]. (the_num (disbursed p) / 100) * the_num (contract_sum p))
       \<and> summary.balance s = total_contract s - total_disbursed s))
   \<and> (\<not> list_all numeric_row ps \<longrightarrow> pdf_call ps True amt = Inl TypeError)
   \<and> pdf_projects ps False amt = ps"
proof (intro conjI impI)
  assume h: "list_all numeric_row ps"
  show "\<exists>s. compute_summary ps True amt = Inr s
       \<and> pdf_call ps True amt = Inr (ps @ [bank_charges_project amt], s)
       \<and> approved_cost (bank_charges_project amt) = Num amt
       \<and> contract_sum (bank_charges_project amt) = Num amt
       \<and> disbursed (bank_charges_project amt) = Num 100
       \<and> project_row.balance (bank_charges_project amt) = Num 0
       \<and> completion (bank_charges_project amt) = Num 100
       \<and> quality (bank_charges_project amt) = Str ''N/A''
       \<and> compliance (bank_charges_project amt) = Str ''N/A''
       \<and> total_projects s = int (length ps)
       \<and> total_approved s = (\<Sum>p\<leftarrow>ps @ [bank_charges_project amt]. the_num (approved_cost p))
       \<and> total_contract s = (\<Sum>p\<leftarrow>ps @ [bank_charges_project amt]. the_num (contract_sum p))
       \<and> total_disbursed s
           = (\<Sum>p\<leftarrow>ps @ [bank_charges_project amt]. (the_num (disbursed p) / 100) * the_num (contract_sum p))
       \<and> summary.balance s = total_contract s - total_disbursed s"
    by (simp add: pdf_call_def pdf_projects_def compute_summary_numeric [OF h]
        bank_charges_project_def)
next
  assume "\<not> list_all numeric_row ps"
  then show "pdf_call ps True amt = Inl TypeError"
    by (simp add: pdf_call_def compute_summary_not_numeric)
next
  show "pdf_projects ps False amt = ps"
    by (simp add: pdf_projects_def)
qed

theorem rider_row_at_call_boundary_witness:
  "list_all numeric_row [DEFAULT_PROJECT\<lparr>approved_cost := Num 1000, contract_sum := Num 800,
      disbursed := Num 50\<rparr>]
   \<and> pdf_call [DEFAULT_PROJECT\<lparr>approved_cost := Num 1000, contract_sum := Num 800,
      disbursed := Num 50\<rparr>] True 215013
     = Inr ([DEFAULT_PROJECT\<lparr>approved_cost := Num 1000, contract_sum := Num 800,
                disbursed := Num 50\<rparr>, bank_charges_project 215013],
            \<lparr> total_projects = 1, completed = 0, in_progress = 1, completion_rate = 0,
              total_approved = 216013, total_contract = 215813, total_disbursed = 215413,
              balance = 400 \<rparr>)
   \<and> \<not> list_all numeric_row [DEFAULT_PROJECT\<lparr>completion := NoneV\<rparr>]
   \<and> pdf_call [DEFAULT_PROJECT\<lparr>completion := NoneV\<rparr>] True 215013 = Inl TypeError"
proof -
  define ps where "ps = [DEFAULT_PROJECT\<lparr>approved_cost := Num 1000, contract_sum := Num 800,
      disbursed := Num 50\<rparr>]"
  define qs where "qs = [DEFAULT_PROJECT\<lparr>completion := NoneV\<rparr>]"
  have h: "list_all numeric_row ps"
    by (simp add: ps_def numeric_row_def DEFAULT_PROJECT_def)
  have n: "\<not> list_all numeric_row qs"
    by (simp add: qs_def numeric_row_def DEFAULT_PROJECT_def)
  have s: "compute_summary ps True 215013
     = Inr \<lparr> total_projects = 1, completed = 0, in_progress = 1, completion_rate = 0,
              total_approved = 216013, total_contract = 215813, total_disbursed = 215413,
              balance = 400 \<rparr>"
    by (simp add: ps_def compute_summary_def DEFAULT_PROJECT_def completed_term_def
        approved_term_def contract_term_def disbursed_term_def)
  from rider_row_at_call_boundary [of ps 215013, THEN conjunct1, THEN mp, OF h]
  obtain s' where s': "compute_summary ps True 215013 = Inr s'"
      "pdf_call ps True 215013 = Inr (ps @ [bank_charges_project 215013], s')"
    by (elim exE conjE)
  from s s'(1) have "s' = \<lparr> total_projects = 1, completed = 0, in_progress = 1,
              completion_rate = 0, total_approved = 216013, total_contract = 215813,
              total_disbursed = 215413, balance = 400 \<rparr>" by simp
  with s'(2) have ok: "pdf_call ps True 215013
     = Inr (ps @ [bank_charges_project 215013],
            \<lparr> total_projects = 1, completed = 0, in_progress = 1, completion_rate = 0,
              total_approved = 216013, total_contract = 215813, total_disbursed = 215413,
              balance = 400 \<rparr>)" by simp
  note err = rider_row_at_call_boundary [of qs 215013, THEN conjunct2, THEN conjunct1, THEN mp, OF n]
  from h ok n err show ?thesis unfolding ps_def qs_def by simp
qed

section \<open>Properties of load_autosave\<close>

lemma store_item_present:
  "map_of kvs k = Some v \<Longrightarrow> store_item (JObj kvs) k upd s = Inr (upd v s)"
  by (simp add: store_item_def)

lemma store_item_absent:
  "map_of kvs k = None \<Longrightarrow> store_item (JObj kvs) k upd s = Inl (KeyError k)"
  by (simp add: store_item_def)

lemma store_date_absent:
  "map_of kvs k = None \<Longrightarrow> store_date fromiso (JObj kvs) k s = Inl (KeyError k)"
  by (simp add: store_date_def)

lemma store_date_present:
  "map_of kvs k = Some (JStr x) \<Longrightarrow> fromiso x = Some d
    \<Longrightarrow> store_date fromiso (JObj kvs) k s = Inr (s\<lparr>inspection_date := d\<rparr>)"
  by (simp add: store_date_def)

lemma store_get_dict:
  "store_get (JObj kvs) k dflt upd s
     = Inr (upd (case map_of kvs k of None \<Rightarrow> dflt | Some v \<Rightarrow> v) s)"
  by (simp add: store_get_def)

lemma run_steps_fails:
  "f \<in> set fs \<Longrightarrow> (\<And>s. \<exists>e. f s = Inl e) \<Longrightarrow> fst (run_steps fs s) \<noteq> None"
proof (induction fs arbitrary: s)
  case Nil
  then show ?case by simp
next
  case (Cons g fs)
  show ?case
  proof (cases "g s")
    case (Inl e)
    then show ?thesis by simp
  next
    case (Inr s')
    have "f \<noteq> g"
    proof
      assume "f = g"
      with Cons.prems(2) [of s] Inr show False by auto
    qed
    with Cons.prems(1) have "f \<in> set fs" by simp
    from Cons.IH [OF this Cons.prems(2)] Inr show ?thesis by simp
  qed
qed

lemma load_autosave_complete:
  assumes "complete_draft fromiso kvs"
  shows "\<exists>st'. load_autosave fromiso (Some (Inr (JObj kvs))) st = (None, st')
     \<and> bank_charges_amount st' = (case map_of kvs ''bank_charges_amount'' of
          None \<Rightarrow> JNum DEFAULT_BANK_CHARGES_AMOUNT | Some v \<Rightarrow> v)
     \<and> pdf_orientation st' = (case map_of kvs ''pdf_orientation'' of
          None \<Rightarrow> JStr ''Landscape'' | Some v \<Rightarrow> v)"
proof -
  from assms obtain v1 v2 v3 v4 v6 v8 v9 v10 v11 x d where v:
    "map_of kvs ''projects'' = Some v1"
    "map_of kvs ''institution_name'' = Some v2"
    "map_of kvs ''location'' = Some v3"
    "map_of kvs ''intervention_year'' = Some v4"
    "map_of kvs ''inspection_date'' = Some (JStr x)" "fromiso x = Some d"
    "map_of kvs ''bank_charges_added'' = Some v6"
    "map_of kvs ''monitoring_team'' = Some v8"
    "map_of kvs ''approval_status'' = Some v9"
    "map_of kvs ''dme_officer'' = Some v10"
    "map_of kvs ''approval_comments'' = Some v11"
    unfolding complete_draft_def required_keys_def by (simp del: map_of_eq_None_iff) blast
  note d = store_date_present [where fromiso = fromiso and x = x, OF v(5) v(6)]
  show ?thesis
    unfolding load_autosave_def
    by (simp add: store_item_present [OF v(1)] store_item_present [OF v(2)]
        store_item_present [OF v(3)] store_item_present [OF v(4)]
        d store_item_present [OF v(7)]
        store_item_present [OF v(8)] store_item_present [OF v(9)]
        store_item_present [OF v(10)] store_item_present [OF v(11)] store_get_dict)
qed

lemma required_key_cases:
  assumes "k \<in> set required_keys"
  shows "k = ''projects'' \<or> k = ''institution_name'' \<or> k = ''location'' \<or> k = ''intervention_year''
    \<or> k = ''inspection_date'' \<or> k = ''bank_charges_added'' \<or> k = ''monitoring_team''
    \<or> k = ''approval_status'' \<or> k = ''dme_officer'' \<or> k = ''approval_comments''"
  using assms unfolding required_keys_def by simp

lemma failing_step:
  assumes "k \<in> set required_keys" "map_of kvs k = None"
  shows "\<exists>f. f \<in> set [store_item (JObj kvs) ''projects'' (\<lambda>v s. s\<lparr>projects := v\<rparr>),
          store_item (JObj kvs) ''institution_name'' (\<lambda>v s. s\<lparr>institution_name := v\<rparr>),
          store_item (JObj kvs) ''location'' (\<lambda>v s. s\<lparr>location := v\<rparr>),
          store_item (JObj kvs) ''intervention_year'' (\<lambda>v s. s\<lparr>intervention_year := v\<rparr>),
          store_date fromiso (JObj kvs) ''inspection_date'',
          store_item (JObj kvs) ''bank_charges_added'' (\<lambda>v s. s\<lparr>bank_charges_added := v\<rparr>),
          store_get (JObj kvs) ''bank_charges_amount'' (JNum DEFAULT_BANK_CHARGES_AMOUNT)
            (\<lambda>v s. s\<lparr>bank_charges_amount := v\<rparr>),
          store_item (JObj kvs) ''monitoring_team'' (\<lambda>v s. s\<lparr>monitoring_team := v\<rparr>),
          store_item (JObj kvs) ''approval_status'' (\<lambda>v s. s\<lparr>approval_status := v\<rparr>),
          store_item (JObj kvs) ''dme_officer'' (\<lambda>v s. s\<lparr>dme_officer := v\<rparr>),
          store_item (JObj kvs) ''approval_comments'' (\<lambda>v s. s\<lparr>approval_comments := v\<rparr>),
          store_get (JObj kvs) ''pdf_orientation'' (JStr ''Landscape'') (\<lambda>v s. s\<lparr>pdf_orientation := v\<rparr>),
          store_get (JObj kvs) ''saved_at'' JNull (\<lambda>v s. s\<lparr>draft_loaded := v\<rparr>)]
      \<and> (\<forall>s. f s = Inl (KeyError k))"
proof -
  from required_key_cases [OF assms(1)] show ?thesis
  proof (elim disjE, goal_cases)
    case 1
    from assms(2) have "map_of kvs ''projects'' = None" unfolding 1 .
    then have "\<forall>s. (store_item (JObj kvs) ''projects'' (\<lambda>v s. s\<lparr>projects := v\<rparr>)) s = Inl (KeyError ''projects'')"
      by (simp add: store_item_absent)
    then show ?case unfolding 1
      by (intro exI [of _ "store_item (JObj kvs) ''projects'' (\<lambda>v s. s\<lparr>projects := v\<rparr>)"]) simp
  next
    case 2
    from assms(2) have "map_of kvs ''institution_name'' = None" unfolding 2 .
    then have "\<forall>s. (store_item (JObj kvs) ''institution_name'' (\<lambda>v s. s\<lparr>institution_name := v\<rparr>)) s = Inl (KeyError ''institution_name'')"
      by (simp add: store_item_absent)
    then show ?case unfolding 2
      by (intro exI [of _ "store_item (JObj kvs) ''institution_name'' (\<lambda>v s. s\<lparr>institution_name := v\<rparr>)"]) simp
  next
    case 3
    from assms(2) have "map_of kvs ''location'' = None" unfolding 3 .
    then have "\<forall>s. (store_item (JObj kvs) ''location'' (\<lambda>v s. s\<lparr>location := v\<rparr>)) s = Inl (KeyError ''location'')"
      by (simp add: store_item_absent)
    then show ?case unfolding 3
      by (intro exI [of _ "store_item (JObj kvs) ''location'' (\<lambda>v s. s\<lparr>location := v\<rparr>)"]) simp
  next
    case 4
    from assms(2) have "map_of kvs ''intervention_year'' = None" unfolding 4 .
    then have "\<forall>s. (store_item (JObj kvs) ''intervention_year'' (\<lambda>v s. s\<lparr>intervention_year := v\<rparr>)) s = Inl (KeyError ''intervention_year'')"
      by (simp add: store_item_absent)
    then show ?case unfolding 4
      by (intro exI [of _ "store_item (JObj kvs) ''intervention_year'' (\<lambda>v s. s\<lparr>intervention_year := v\<rparr>)"]) simp
  next
    case 5
    from assms(2) have "map_of kvs ''inspection_date'' = None" unfolding 5 .
    then have "\<forall>s. (store_date fromiso (JObj kvs) ''inspection_date'') s = Inl (KeyError ''inspection_date'')"
      by (simp add: store_date_absent)
    then show ?case unfolding 5
      by (intro exI [of _ "store_date fromiso (JObj kvs) ''inspection_date''"]) simp
  next
    case 6
    from assms(2) have "map_of kvs ''bank_charges_added'' = None" unfolding 6 .
    then have "\<forall>s. (store_item (JObj kvs) ''bank_charges_added'' (\<lambda>v s. s\<lparr>bank_charges_added := v\<rparr>)) s = Inl (KeyError ''bank_charges_added'')"
      by (simp add: store_item_absent)
    then show ?case unfolding 6
      by (intro exI [of _ "store_item (JObj kvs) ''bank_charges_added'' (\<lambda>v s. s\<lparr>bank_charges_added := v\<rparr>)"]) simp
  next
    case 7
    from assms(2) have "map_of kvs ''monitoring_team'' = None" unfolding 7 .
    then have "\<forall>s. (store_item (JObj kvs) ''monitoring_team'' (\<lambda>v s. s\<lparr>monitoring_team := v\<rparr>)) s = Inl (KeyError ''monitoring_team'')"
      by (simp add: store_item_absent)
    then show ?case unfolding 7
      by (intro exI [of _ "store_item (JObj kvs) ''monitoring_team'' (\<lambda>v s. s\<lparr>monitoring_team := v\<rparr>)"]) simp
  next
    case 8
    from assms(2) have "map_of kvs ''approval_status'' = None" unfolding 8 .
    then have "\<forall>s. (store_item (JObj kvs) ''approval_status'' (\<lambda>v s. s\<lparr>approval_status := v\<rparr>)) s = Inl (KeyError ''approval_status'')"
      by (simp add: store_item_absent)
    then show ?case unfolding 8
      by (intro exI [of _ "store_item (JObj kvs) ''approval_status'' (\<lambda>v s. s\<lparr>approval_status := v\<rparr>)"]) simp
  next
    case 9
    from assms(2) have "map_of kvs ''dme_officer'' = None" unfolding 9 .
    then have "\<forall>s. (store_item (JObj kvs) ''dme_officer'' (\<lambda>v s. s\<lparr>dme_officer := v\<rparr>)) s = Inl (KeyError ''dme_officer'')"
      by (simp add: store_item_absent)
    then show ?case unfolding 9
      by (intro exI [of _ "store_item (JObj kvs) ''dme_officer'' (\<lambda>v s. s\<lparr>dme_officer := v\<rparr>)"]) simp
  next
    case 10
    from assms(2) have "map_of kvs ''approval_comments'' = None" unfolding 10 .
    then have "\<forall>s. (store_item (JObj kvs) ''approval_comments'' (\<lambda>v s. s\<lparr>approval_comments := v\<rparr>)) s = Inl (KeyError ''approval_comments'')"
      by (simp add: store_item_absent)
    then show ?case unfolding 10
      by (intro exI [of _ "store_item (JObj kvs) ''approval_comments'' (\<lambda>v s. s\<lparr>approval_comments := v\<rparr>)"]) simp
  qed
qed

lemma load_autosave_missing:
  assumes "k \<in> set required_keys" "map_of kvs k = None"
  shows "fst (load_autosave fromiso (Some (Inr (JObj kvs))) st) \<noteq> None"
proof -
  from failing_step [OF assms, of fromiso] obtain f where
    f: "f \<in> set [store_item (JObj kvs) ''projects'' (\<lambda>v s. s\<lparr>projects := v\<rparr>),
          store_item (JObj kvs) ''institution_name'' (\<lambda>v s. s\<lparr>institution_name := v\<rparr>),
          store_item (JObj kvs) ''location'' (\<lambda>v s. s\<lparr>location := v\<rparr>),
          store_item (JObj kvs) ''intervention_year'' (\<lambda>v s. s\<lparr>intervention_year := v\<rparr>),
          store_date fromiso (JObj kvs) ''inspection_date'',
          store_item (JObj kvs) ''bank_charges_added'' (\<lambda>v s. s\<lparr>bank_charges_added := v\<rparr>),
          store_get (JObj kvs) ''bank_charges_amount'' (JNum DEFAULT_BANK_CHARGES_AMOUNT)
            (\<lambda>v s. s\<lparr>bank_charges_amount := v\<rparr>),
          store_item (JObj kvs) ''monitoring_team'' (\<lambda>v s. s\<lparr>monitoring_team := v\<rparr>),
          store_item (JObj kvs) ''approval_status'' (\<lambda>v s. s\<lparr>approval_status := v\<rparr>),
          store_item (JObj kvs) ''dme_officer'' (\<lambda>v s. s\<lparr>dme_officer := v\<rparr>),
          store_item (JObj kvs) ''approval_comments'' (\<lambda>v s. s\<lparr>approval_comments := v\<rparr>),
          store_get (JObj kvs) ''pdf_orientation'' (JStr ''Landscape'') (\<lambda>v s. s\<lparr>pdf_orientation := v\<rparr>),
          store_get (JObj kvs) ''saved_at'' JNull (\<lambda>v s. s\<lparr>draft_loaded := v\<rparr>)]" "\<And>s. f s = Inl (KeyError k)"
    by blast
  have "fst (run_steps [store_item (JObj kvs) ''projects'' (\<lambda>v s. s\<lparr>projects := v\<rparr>),
          store_item (JObj kvs) ''institution_name'' (\<lambda>v s. s\<lparr>institution_name := v\<rparr>),
          store_item (JObj kvs) ''location'' (\<lambda>v s. s\<lparr>location := v\<rparr>),
          store_item (JObj kvs) ''intervention_year'' (\<lambda>v s. s\<lparr>intervention_year := v\<rparr>),
          store_date fromiso (JObj kvs) ''inspection_date'',
          store_item (JObj kvs) ''bank_charges_added'' (\<lambda>v s. s\<lparr>bank_charges_added := v\<rparr>),
          store_get (JObj kvs) ''bank_charges_amount'' (JNum DEFAULT_BANK_CHARGES_AMOUNT)
            (\<lambda>v s. s\<lparr>bank_charges_amount := v\<rparr>),
          store_item (JObj kvs) ''monitoring_team'' (\<lambda>v s. s\<lparr>monitoring_team := v\<rparr>),
          store_item (JObj kvs) ''approval_status'' (\<lambda>v s. s\<lparr>approval_status := v\<rparr>),
          store_item (JObj kvs) ''dme_officer'' (\<lambda>v s. s\<lparr>dme_officer := v\<rparr>),
          store_item (JObj kvs) ''approval_comments'' (\<lambda>v s. s\<lparr>approval_comments := v\<rparr>),
          store_get (JObj kvs) ''pdf_orientation'' (JStr ''Landscape'') (\<lambda>v s. s\<lparr>pdf_orientation := v\<rparr>),
          store_get (JObj kvs) ''saved_at'' JNull (\<lambda>v s. s\<lparr>draft_loaded := v\<rparr>)] st) \<noteq> None"
    by (rule run_steps_fails [OF f(1)]) (simp add: f(2))
  then show ?thesis by (simp add: load_autosave_def)
qed


text \<open>
  Claim C6, as the code has it. A draft object that has the ten required keys, with an
  inspection date that reads as an ISO date, is decoded without an exception; when it has
  no rider amount the state gets the fixed default constant, and when it has no
  orientation the state gets Landscape. A file that is not JSON, and a draft object that
  lacks a required key, make \<open>load_autosave\<close> raise; the caller adds no handler of its
  own, so what leaves \<open>load_autosave\<close> leaves the caller, with the session state as
  \<open>load_autosave\<close> left it.
\<close>

theorem load_autosave_defaults:
  "(complete_draft fromiso kvs \<longrightarrow>
      (\<exists>st'. load_autosave fromiso (Some (Inr (JObj kvs))) st = (None, st')
        \<and> (map_of kvs ''bank_charges_amount'' = None
              \<longrightarrow> bank_charges_amount st' = JNum DEFAULT_BANK_CHARGES_AMOUNT)
        \<and> (map_of kvs ''pdf_orientation'' = None \<longrightarrow> pdf_orientation st' = JStr ''Landscape'')))
   \<and> (k \<in> set required_keys \<and> map_of kvs k = None
        \<longrightarrow> fst (load_autosave fromiso (Some (Inr (JObj kvs))) st) \<noteq> None)
   \<and> load_autosave fromiso (Some (Inl e)) st = (Some e, st)
   \<and> (\<not> py_truthy (draft_loaded st)
        \<longrightarrow> load_draft_at_startup fromiso (Some content) st = load_autosave fromiso (Some content) st)"
proof (intro conjI impI)
  assume "complete_draft fromiso kvs"
  from load_autosave_complete [OF this, of st] obtain st' where
    st': "load_autosave fromiso (Some (Inr (JObj kvs))) st = (None, st')"
      "bank_charges_amount st' = (case map_of kvs ''bank_charges_amount'' of
          None \<Rightarrow> JNum DEFAULT_BANK_CHARGES_AMOUNT | Some v \<Rightarrow> v)"
      "pdf_orientation st' = (case map_of kvs ''pdf_orientation'' of
          None \<Rightarrow> JStr ''Landscape'' | Some v \<Rightarrow> v)"
    by blast
  show "\<exists>st'. load_autosave fromiso (Some (Inr (JObj kvs))) st = (None, st')
        \<and> (map_of kvs ''bank_charges_amount'' = None
              \<longrightarrow> bank_charges_amount st' = JNum DEFAULT_BANK_CHARGES_AMOUNT)
        \<and> (map_of kvs ''pdf_orientation'' = None \<longrightarrow> pdf_orientation st' = JStr ''Landscape'')"
  proof (intro exI conjI impI)
    show "load_autosave fromiso (Some (Inr (JObj kvs))) st = (None, st')" by (rule st'(1))
  next
    assume "map_of kvs ''bank_charges_amount'' = None"
    with st'(2) show "bank_charges_amount st' = JNum DEFAULT_BANK_CHARGES_AMOUNT" by simp
  next
    assume "map_of kvs ''pdf_orientation'' = None"
    with st'(3) show "pdf_orientation st' = JStr ''Landscape''" by simp
  qed
next
  assume "k \<in> set required_keys \<and> map_of kvs k = None"
  then show "fst (load_autosave fromiso (Some (Inr (JObj kvs))) st) \<noteq> None"
    using load_autosave_missing by blast
next
  show "load_autosave fromiso (Some (Inl e)) st = (Some e, st)"
    by (simp add: load_autosave_def)
next
  assume "\<not> py_truthy (draft_loaded st)"
  then show "load_draft_at_startup fromiso (Some content) st = load_autosave fromiso (Some content) st"
    by (simp add: load_draft_at_startup_def)
qed

theorem load_autosave_defaults_witness:
  "complete_draft [''2024-05-01'' \<mapsto> (2024, 5, 1)]
     [(''projects'', JArr []), (''institution_name'', JStr ''Uni''), (''location'', JStr ''Town''),
      (''intervention_year'', JStr ''2024''), (''inspection_date'', JStr ''2024-05-01''),
      (''bank_charges_added'', JBool True), (''monitoring_team'', JArr []),
      (''approval_status'', JStr ''Pending''), (''dme_officer'', JStr []),
      (''approval_comments'', JStr [])]
   \<and> fst (load_autosave [''2024-05-01'' \<mapsto> (2024, 5, 1)] (Some (Inr (JObj
     [(''projects'', JArr []), (''institution_name'', JStr ''Uni''), (''location'', JStr ''Town''),
      (''intervention_year'', JStr ''2024''), (''inspection_date'', JStr ''2024-05-01''),
      (''bank_charges_added'', JBool True), (''monitoring_team'', JArr []),
      (''approval_status'', JStr ''Pending''), (''dme_officer'', JStr []),
      (''approval_comments'', JStr [])]))) (init_state ''2026'' (2026, 1, 1))) = None
   \<and> bank_charges_amount (snd (load_autosave [''2024-05-01'' \<mapsto> (2024, 5, 1)] (Some (Inr (JObj
     [(''projects'', JArr []), (''institution_name'', JStr ''Uni''), (''location'', JStr ''Town''),
      (''intervention_year'', JStr ''2024''), (''inspection_date'', JStr ''2024-05-01''),
      (''bank_charges_added'', JBool True), (''monitoring_team'', JArr []),
      (''approval_status'', JStr ''Pending''), (''dme_officer'', JStr []),
      (''approval_comments'', JStr [])]))) (init_state ''2026'' (2026, 1, 1)))) = JNum 215013
   \<and> pdf_orientation (snd (load_autosave [''2024-05-01'' \<mapsto> (2024, 5, 1)] (Some (Inr (JObj
     [(''projects'', JArr []), (''institution_name'', JStr ''Uni''), (''location'', JStr ''Town''),
      (''intervention_year'', JStr ''2024''), (''inspection_date'', JStr ''2024-05-01''),
      (''bank_charges_added'', JBool True), (''monitoring_team'', JArr []),
      (''approval_status'', JStr ''Pending''), (''dme_officer'', JStr []),
      (''approval_comments'', JStr [])]))) (init_state ''2026'' (2026, 1, 1)))) = JStr ''Landscape''
   \<and> ''location'' \<in> set required_keys
   \<and> fst (load_autosave Map.empty (Some (Inr (JObj [(''projects'', JArr [])])))
         (init_state ''2026'' (2026, 1, 1))) \<noteq> None
   \<and> load_draft_at_startup Map.empty (Some (Inr (JObj [(''projects'', JArr [])])))
         (init_state ''2026'' (2026, 1, 1))
       = load_autosave Map.empty (Some (Inr (JObj [(''projects'', JArr [])])))
         (init_state ''2026'' (2026, 1, 1))"
proof -
  define fi :: "string \<Rightarrow> date option" where "fi = [''2024-05-01'' \<mapsto> (2024, 5, 1)]"
  define kvs where "kvs =
     [(''projects'', JArr []), (''institution_name'', JStr ''Uni''), (''location'', JStr ''Town''),
      (''intervention_year'', JStr ''2024''), (''inspection_date'', JStr ''2024-05-01''),
      (''bank_charges_added'', JBool True), (''monitoring_team'', JArr []),
      (''approval_status'', JStr ''Pending''), (''dme_officer'', JStr []),
      (''approval_comments'', JStr [])]"
  define st0 where "st0 = init_state ''2026'' (2026, 1, 1)"
  define bad where "bad = [(''projects'', JArr [])]"
  have h: "complete_draft fi kvs"
    by (simp add: complete_draft_def required_keys_def kvs_def fi_def)
  have m: "map_of kvs ''bank_charges_amount'' = None" "map_of kvs ''pdf_orientation'' = None"
    by (simp_all add: kvs_def)
  have k: "''location'' \<in> set required_keys" "map_of bad ''location'' = None"
    by (simp_all add: required_keys_def bad_def)
  have t: "\<not> py_truthy (draft_loaded st0)"
    by (simp add: st0_def init_state_def)
  from load_autosave_defaults [of fi kvs st0] h m
  obtain st' where st': "load_autosave fi (Some (Inr (JObj kvs))) st0 = (None, st')"
      "bank_charges_amount st' = JNum DEFAULT_BANK_CHARGES_AMOUNT"
      "pdf_orientation st' = JStr ''Landscape''"
    by blast
  have a: "fst (load_autosave fi (Some (Inr (JObj kvs))) st0) = None"
      "bank_charges_amount (snd (load_autosave fi (Some (Inr (JObj kvs))) st0)) = JNum 215013"
      "pdf_orientation (snd (load_autosave fi (Some (Inr (JObj kvs))) st0)) = JStr ''Landscape''"
    using st' by (simp_all add: DEFAULT_BANK_CHARGES_AMOUNT_def)
  have b: "fst (load_autosave Map.empty (Some (Inr (JObj bad))) st0) \<noteq> None"
    using load_autosave_defaults [of Map.empty bad st0 "''location''"] k by blast
  have c: "load_draft_at_startup Map.empty (Some (Inr (JObj bad))) st0
      = load_autosave Map.empty (Some (Inr (JObj bad))) st0"
    using load_autosave_defaults [of Map.empty bad st0 "''location''" _ "Inr (JObj bad)"] t by blast
  from h a k(1) b c show ?thesis
    unfolding fi_def kvs_def st0_def bad_def by blast
qed

text \<open>
  A draft that holds only the project list makes the caller end with \<open>KeyError\<close>, the stored
  projects already overwritten; a file that is not JSON makes it end with the decoder's
  error. Neither is caught, and the state is not reset to the defaults.
\<close>

theorem load_autosave_raises_counterexample:
  "load_draft_at_startup Map.empty (Some (Inr (JObj [(''projects'', JArr [])])))
       (init_state ''2026'' (2026, 1, 1))
     = (Some (KeyError ''institution_name''), (init_state ''2026'' (2026, 1, 1))\<lparr>projects := JArr []\<rparr>)
   \<and> (init_state ''2026'' (2026, 1, 1))\<lparr>projects := JArr []\<rparr> \<noteq> init_state ''2026'' (2026, 1, 1)
   \<and> load_draft_at_startup Map.empty (Some (Inl JSONDecodeError)) (init_state ''2026'' (2026, 1, 1))
     = (Some JSONDecodeError, init_state ''2026'' (2026, 1, 1))"
  by (simp add: load_draft_at_startup_def load_autosave_def init_state_def store_item_def)

section \<open>Properties of text formatting\<close>

lemma decimal_small: "n < 10 \<Longrightarrow> decimal n = [''0123456789'' ! n]"
  by (simp add: decimal.simps)

lemma decimal_big: "\<not> n < 10 \<Longrightarrow> decimal n = decimal (n div 10) @ [''0123456789'' ! (n mod 10)]"
  by (subst decimal.simps) simp

lemma group3_small: "length ds \<le> 3 \<Longrightarrow> group3 ds = ds"
  by (simp add: group3.simps)

lemma group3_big:
  "\<not> length ds \<le> 3 \<Longrightarrow> group3 ds = group3 (take (length ds - 3) ds) @ '','' @ drop (length ds - 3) ds"
  by (subst group3.simps) simp

lemma digit_char: "d < 10 \<Longrightarrow> ''0123456789'' ! d \<in> set ''0123456789''"
  by (rule nth_mem) simp

lemma decimal_digits: "set (decimal n) \<subseteq> set ''0123456789''"
proof (induction n rule: decimal.induct)
  case (1 n)
  show ?case
  proof (cases "n < 10")
    case True
    then show ?thesis using digit_char [OF True] by (simp add: decimal_small)
  next
    case False
    have "n mod 10 < 10" by simp
    from digit_char [OF this] "1.IH" [OF False] False show ?thesis
      by (simp add: decimal_big)
  qed
qed

lemma group3_filter:
  "CHR '','' \<notin> set ds \<Longrightarrow> filter (\<lambda>c. c \<noteq> CHR '','') (group3 ds) = ds"
proof (induction ds rule: group3.induct)
  case (1 ds)
  show ?case
  proof (cases "length ds \<le> 3")
    case True
    with "1.prems" show ?thesis by (auto simp add: group3_small filter_id_conv)
  next
    case False
    have a: "CHR '','' \<notin> set (take (length ds - 3) ds)" and b: "CHR '','' \<notin> set (drop (length ds - 3) ds)"
      using "1.prems" by (auto dest: in_set_takeD in_set_dropD)
    have "filter (\<lambda>c. c \<noteq> CHR '','') (group3 ds)
        = filter (\<lambda>c. c \<noteq> CHR '','') (group3 (take (length ds - 3) ds)) @ drop (length ds - 3) ds"
      using b by (auto simp add: group3_big [OF False] filter_id_conv)
    also have "\<dots> = take (length ds - 3) ds @ drop (length ds - 3) ds"
      using "1.IH" [OF False a] by simp
    finally show ?thesis by simp
  qed
qed

lemma mod4_shift: "i < g \<Longrightarrow> (g + 4 - i) mod 4 = (g - i) mod (4::nat)"
proof -
  assume "i < g"
  then have e: "g + 4 - i = (g - i) + 4" by arith
  have "((g - i) + 4) mod 4 = (g - i) mod 4" by (rule mod_add_self2)
  then show ?thesis by (simp only: e)
qed
lemma mod4_tail: "g < i \<Longrightarrow> i < g + 4 \<Longrightarrow> (g + 4 - i) mod 4 \<noteq> (0::nat)"
proof -
  assume a: "g < i" "i < g + 4"
  then have "g + 4 - i < 4" "0 < g + 4 - i" by arith+
  then show ?thesis by (simp only: mod_less)
qed
lemma mod4_small: "i < n \<Longrightarrow> n \<le> 3 \<Longrightarrow> (n - i) mod 4 \<noteq> (0::nat)"
proof -
  assume a: "i < n" "n \<le> 3"
  then have "n - i < 4" "0 < n - i" by arith+
  then show ?thesis by (simp only: mod_less)
qed

lemma group3_commas:
  "CHR '','' \<notin> set ds \<Longrightarrow> i < length (group3 ds)
    \<Longrightarrow> (group3 ds ! i = CHR '','') \<longleftrightarrow> (length (group3 ds) - i) mod 4 = 0"
proof (induction ds arbitrary: i rule: group3.induct)
  case (1 ds)
  show ?case
  proof (cases "length ds \<le> 3")
    case True
    have i: "i < length ds" using "1.prems"(2) by (simp add: group3_small [OF True])
    then have "ds ! i \<in> set ds" by (rule nth_mem)
    with "1.prems"(1) have "ds ! i \<noteq> CHR '',''" by auto
    moreover have "(length ds - i) mod 4 \<noteq> 0"
      by (rule mod4_small [OF i True])
    ultimately show ?thesis by (simp add: group3_small [OF True])
  next
    case False
    define h where "h = take (length ds - 3) ds"
    define t where "t = drop (length ds - 3) ds"
    define g where "g = group3 h"
    have eq: "group3 ds = g @ '','' @ t"
      unfolding g_def h_def t_def by (rule group3_big [OF False])
    have lt: "length t = 3" using False by (simp add: t_def)
    have len: "length (group3 ds) = length g + 4" using lt by (simp add: eq)
    have a: "CHR '','' \<notin> set h" and b: "CHR '','' \<notin> set t"
      using "1.prems"(1) unfolding h_def t_def by (auto dest: in_set_takeD in_set_dropD)
    have IH: "\<And>j. j < length g \<Longrightarrow> (g ! j = CHR '','') \<longleftrightarrow> (length g - j) mod 4 = 0"
      using "1.IH" [OF False a [unfolded h_def]] by (simp add: g_def h_def)
    have cases: "i < length g \<or> i = length g \<or> length g < i" by arith
    show ?thesis
    proof (rule disjE [OF cases])
      assume 1: "i < length g"
      have "group3 ds ! i = g ! i" using 1 by (simp add: eq nth_append)
      moreover have "(length (group3 ds) - i) mod 4 = (length g - i) mod 4"
        unfolding len by (rule mod4_shift [OF 1])
      ultimately show ?thesis using IH [OF 1] by simp
    next
      assume "i = length g \<or> length g < i"
      then show ?thesis
      proof
        assume 2: "i = length g"
        have "group3 ds ! i = CHR '',''" by (simp add: eq 2 nth_append)
        moreover have "(length (group3 ds) - i) mod 4 = 0" by (simp add: len 2)
        ultimately show ?thesis by simp
      next
        assume 3: "length g < i"
        have i4: "i < length g + 4" using "1.prems"(2) by (simp only: len)
        have j: "i - length g - 1 < length t" using 3 i4 lt by arith
        have "group3 ds ! i = ('','' @ t) ! (i - length g)"
          using 3 by (simp add: eq nth_append)
        also have "\<dots> = t ! (i - length g - 1)"
          using 3 by (simp add: nth_Cons')
        finally have "group3 ds ! i = t ! (i - length g - 1)" .
        moreover have "t ! (i - length g - 1) \<in> set t" using j by (rule nth_mem)
        ultimately have "group3 ds ! i \<noteq> CHR '',''" using b by auto
        moreover have "(length (group3 ds) - i) mod 4 \<noteq> 0"
          unfolding len by (rule mod4_tail [OF 3 i4])
        ultimately show ?thesis by simp
      qed
    qed
  qed
qed

lemma format_currency:
  "format_fixed True 0 x = (if x < 0 then ''-'' else []) @ group3 (decimal (nat (round_half_even \<bar>x\<bar>)))"
  by (simp add: format_fixed_def)

lemma format_currency_example: "format_fixed True 0 1234567 = ''1,234,567''"
  by (simp add: format_fixed_def round_half_even_def decimal_small decimal_big group3_small group3_big)

lemma format_one_decimal:
  "format_fixed False 1 x =
     (if x < 0 then ''-'' else []) @ decimal (nat (round_half_even (\<bar>x\<bar> * 10)) div 10)
       @ ''.'' @ [''0123456789'' ! (nat (round_half_even (\<bar>x\<bar> * 10)) mod 10)]"
proof -
  have "decimal (nat (round_half_even (\<bar>x\<bar> * 10)) mod 10)
      = [''0123456789'' ! (nat (round_half_even (\<bar>x\<bar> * 10)) mod 10)]"
    by (rule decimal_small) simp
  then show ?thesis by (simp add: format_fixed_def Let_def)
qed

section \<open>Properties of the document\<close>

lemma py_float_readable: "readable float_str v \<Longrightarrow> py_float float_str v = Inr (float_value float_str v)"
  by (cases v) auto

lemma project_row_html_readable:
  assumes "readable_row float_str p"
  shows "project_row_html float_str num_str i p =
     Inr (project_row_text num_str i p
            (float_value float_str (approved_cost p)) (float_value float_str (contract_sum p))
            (float_value float_str (disbursed p)) (float_value float_str (project_row.balance p))
            (float_value float_str (completion p)))"
  using assms by (simp add: project_row_html_def readable_row_def py_float_readable)

lemma sublist_concat_slice: "sublist (concat (take k (drop j xss))) (concat xss)"
proof -
  have "take j xss @ take k (drop j xss) @ drop k (drop j xss) = xss"
    by (simp only: append_take_drop_id)
  then have "concat xss = concat (take j xss @ take k (drop j xss) @ drop k (drop j xss))"
    by (simp only:)
  then have "concat xss = concat (take j xss) @ concat (take k (drop j xss)) @ concat (drop k (drop j xss))"
    by (simp only: concat_append)
  then show ?thesis by (simp only: sublist_appendI)
qed

lemma sublist_concat_member: "x \<in> set xs \<Longrightarrow> sublist x (concat xs)"
proof -
  assume "x \<in> set xs"
  then obtain ys zs where "xs = ys @ x # zs" by (auto simp: in_set_conv_decomp)
  then have "concat xs = concat ys @ x @ concat zs" by simp
  then show ?thesis by (simp only: sublist_appendI)
qed

lemma cell_project:
  \<open>sublist (concat [''            <td>'', py_str num_str (project p), ''</td>''])
     (project_row_text num_str i p a c d b k)\<close>
  unfolding project_row_text_def
  by (rule sublist_order.order.trans [OF _ sublist_concat_slice [where j = 7 and k = 3]])
    (simp del: concat.simps)

lemma cell_approved:
  \<open>sublist (concat [''            <td style="text-align: right;">'', NAIRA, format_fixed True 0 a, ''</td>''])
     (project_row_text num_str i p a c d b k)\<close>
  unfolding project_row_text_def
  by (rule sublist_order.order.trans [OF _ sublist_concat_slice [where j = 11 and k = 4]])
    (simp del: concat.simps)

lemma cell_contract:
  \<open>sublist (concat [''            <td style="text-align: right;">'', NAIRA, format_fixed True 0 c, ''</td>''])
     (project_row_text num_str i p a c d b k)\<close>
  unfolding project_row_text_def
  by (rule sublist_order.order.trans [OF _ sublist_concat_slice [where j = 16 and k = 4]])
    (simp del: concat.simps)

lemma cell_disbursed:
  \<open>sublist (concat [''            <td style="text-align: center;">'', format_fixed False 1 d, ''%</td>''])
     (project_row_text num_str i p a c d b k)\<close>
  unfolding project_row_text_def
  by (rule sublist_order.order.trans [OF _ sublist_concat_slice [where j = 21 and k = 3]])
    (simp del: concat.simps)

lemma cell_balance:
  \<open>sublist (concat [''            <td style="text-align: center;">'', format_fixed False 1 b, ''%</td>''])
     (project_row_text num_str i p a c d b k)\<close>
  unfolding project_row_text_def
  by (rule sublist_order.order.trans [OF _ sublist_concat_slice [where j = 25 and k = 3]])
    (simp del: concat.simps)

lemma cell_quality:
  \<open>sublist (concat [''            <td style="text-align: center;">'', py_str num_str (quality p), ''</td>''])
     (project_row_text num_str i p a c d b k)\<close>
  unfolding project_row_text_def
  by (rule sublist_order.order.trans [OF _ sublist_concat_slice [where j = 29 and k = 3]])
    (simp del: concat.simps)

lemma cell_compliance:
  \<open>sublist (concat [''            <td style="text-align: center;">'', py_str num_str (compliance p), ''</td>''])
     (project_row_text num_str i p a c d b k)\<close>
  unfolding project_row_text_def
  by (rule sublist_order.order.trans [OF _ sublist_concat_slice [where j = 33 and k = 3]])
    (simp del: concat.simps)

lemma cell_other_obs:
  \<open>sublist (concat [''            <td>'', py_str num_str (other_obs p), ''</td>''])
     (project_row_text num_str i p a c d b k)\<close>
  unfolding project_row_text_def
  by (rule sublist_order.order.trans [OF _ sublist_concat_slice [where j = 37 and k = 3]])
    (simp del: concat.simps)

lemma cell_completion:
  \<open>sublist (concat [''            <td style="text-align: center;">'', format_fixed False 1 k, ''%</td>''])
     (project_row_text num_str i p a c d b k)\<close>
  unfolding project_row_text_def
  by (rule sublist_order.order.trans [OF _ sublist_concat_slice [where j = 41 and k = 3]])
    (simp del: concat.simps)

lemma cell_docs:
  \<open>sublist (concat [''            <td style="text-align: center;">'', py_str num_str (docs p), ''</td>''])
     (project_row_text num_str i p a c d b k)\<close>
  unfolding project_row_text_def
  by (rule sublist_order.order.trans [OF _ sublist_concat_slice [where j = 45 and k = 3]])
    (simp del: concat.simps)

lemma cell_recommendation:
  \<open>sublist (concat [''            <td>'', py_str num_str (recommendation p), ''</td>''])
     (project_row_text num_str i p a c d b k)\<close>
  unfolding project_row_text_def
  by (rule sublist_order.order.trans [OF _ sublist_concat_slice [where j = 49 and k = 3]])
    (simp del: concat.simps)

lemma project_rows_loop_readable:
  assumes "\<And>p. p \<in> set ps \<Longrightarrow> readable_row float_str p"
  shows "project_rows_loop float_str num_str i ps acc =
     Inr (acc @ concat (map (\<lambda>(j, p). project_row_text num_str j p
            (float_value float_str (approved_cost p)) (float_value float_str (contract_sum p))
            (float_value float_str (disbursed p)) (float_value float_str (project_row.balance p))
            (float_value float_str (completion p))) (enumerate i ps)))"
  using assms
proof (induction ps arbitrary: i acc)
  case Nil
  show ?case by simp
next
  case (Cons p ps)
  have p: "readable_row float_str p" using Cons.prems by simp
  have rest: "\<And>q. q \<in> set ps \<Longrightarrow> readable_row float_str q" using Cons.prems by simp
  show ?case
    by (simp add: project_row_html_readable [OF p] Cons.IH [OF rest])
qed

lemma row_in_report:
  assumes "list_all (readable_row float_str) ps" "j < length ps"
  shows "\<exists>html. create_html_report float_str num_str now ps info team appr summ orient logo = Inr html
     \<and> sublist (project_row_text num_str (j + 1) (ps ! j)
            (float_value float_str (approved_cost (ps ! j))) (float_value float_str (contract_sum (ps ! j)))
            (float_value float_str (disbursed (ps ! j))) (float_value float_str (project_row.balance (ps ! j)))
            (float_value float_str (completion (ps ! j)))) html"
proof -
  let ?row = "\<lambda>(j, p). project_row_text num_str j p
            (float_value float_str (approved_cost p)) (float_value float_str (contract_sum p))
            (float_value float_str (disbursed p)) (float_value float_str (project_row.balance p))
            (float_value float_str (completion p))"
  let ?rows = "concat (map ?row (enumerate 1 ps))"
  have r: "\<And>p. p \<in> set ps \<Longrightarrow> readable_row float_str p"
    using assms(1) by (simp add: list_all_iff)
  have loop: "project_rows_loop float_str num_str 1 ps [] = Inr ?rows"
    using project_rows_loop_readable [OF r, of ps num_str 1 "[]"] by simp
  have "(j + 1, ps ! j) \<in> set (enumerate 1 ps)"
    using assms(2) by (simp add: in_set_enumerate_eq)
  then have "?row (j + 1, ps ! j) \<in> set (map ?row (enumerate 1 ps))"
    unfolding set_map by (rule imageI)
  then have "sublist (?row (j + 1, ps ! j)) ?rows"
    by (rule sublist_concat_member)
  then have "sublist (?row (j + 1, ps ! j))
      (report_head (if orient = ''Landscape'' then ''A4 landscape'' else ''A4'') (logo_html_of logo) info
       @ ?rows @ report_tail summ (team_rows_loop 1 team []) appr now)"
    by (rule sublist_order.order.trans) (rule sublist_appendI)
  moreover have "create_html_report float_str num_str now ps info team appr summ orient logo
      = Inr (report_head (if orient = ''Landscape'' then ''A4 landscape'' else ''A4'') (logo_html_of logo) info
       @ ?rows @ report_tail summ (team_rows_loop 1 team []) appr now)"
    unfolding create_html_report_def Let_def loop bind_err_Inr ..
  ultimately show ?thesis by (simp only: prod.case) (intro exI conjI, rule refl, assumption)
qed



section \<open>Properties of generate_pdf\<close>

lemma py_float_unreadable: "\<not> readable float_str v \<Longrightarrow> \<exists>e. py_float float_str v = Inl e"
  by (cases v) auto

lemma bind_py_float_fails:
  "(\<exists>e. bind_err (py_float float_str v) f = Inl e)
     \<longleftrightarrow> \<not> readable float_str v \<or> (\<exists>e. f (float_value float_str v) = Inl e)"
proof (cases "readable float_str v")
  case True
  then show ?thesis by (simp add: py_float_readable)
next
  case False
  from py_float_unreadable [OF this] show ?thesis using False by auto
qed

lemma project_row_html_unreadable:
  assumes "\<not> readable_row float_str p"
  shows "\<exists>e. project_row_html float_str num_str i p = Inl e"
  using assms unfolding project_row_html_def readable_row_def
  by (simp only: bind_py_float_fails de_Morgan_conj) auto

lemma project_rows_loop_unreadable:
  assumes "p \<in> set ps" "\<not> readable_row float_str p"
  shows "\<exists>e. project_rows_loop float_str num_str i ps acc = Inl e"
  using assms(1)
proof (induction ps arbitrary: i acc)
  case Nil
  then show ?case by simp
next
  case (Cons q ps)
  show ?case
  proof (cases "project_row_html float_str num_str i q")
    case (Inl e)
    then show ?thesis by simp
  next
    case (Inr row)
    have "q \<noteq> p"
    proof
      assume "q = p"
      with project_row_html_unreadable [OF assms(2), of num_str i] Inr show False by simp
    qed
    with Cons.prems have "p \<in> set ps" by simp
    from Cons.IH [OF this, of "i + 1" "acc @ row"] Inr show ?thesis by simp
  qed
qed

lemma create_html_report_unreadable:
  assumes "p \<in> set ps" "\<not> readable_row float_str p"
  shows "\<exists>e. create_html_report float_str num_str now ps info team appr summ orient logo = Inl e"
proof -
  from project_rows_loop_unreadable [OF assms, of num_str 1 "[]"] obtain e where
    "project_rows_loop float_str num_str 1 ps [] = Inl e" ..
  then show ?thesis by (simp add: create_html_report_def)
qed

lemma write_pdf_no_engine: "write_pdf None html = Inl (NameError ''HTML'')"
  by (simp add: write_pdf_def)

lemma generate_pdf_caught:
  assumes "bind_err (create_html_report float_str num_str now ps info team appr summ orient logo)
             (write_pdf engine) = Inl e"
  shows "generate_pdf engine exc_str format_exc float_str num_str now ps info team appr summ orient
           logo shown
         = (None, shown @ [''PDF generation failed: '' @ exc_str e, format_exc e])"
  using assms by (simp add: generate_pdf_def)

lemma generate_pdf_returned:
  assumes "bind_err (create_html_report float_str num_str now ps info team appr summ orient logo)
             (write_pdf engine) = Inr pdf_bytes"
  shows "generate_pdf engine exc_str format_exc float_str num_str now ps info team appr summ orient
           logo shown
         = (Some pdf_bytes, shown)"
  using assms by (simp add: generate_pdf_def)

lemma generate_pdf_no_engine:
  "\<exists>e. generate_pdf None exc_str format_exc float_str num_str now ps info team appr summ
               orient logo shown
             = (None, shown @ [''PDF generation failed: '' @ exc_str e, format_exc e])"
proof (cases "create_html_report float_str num_str now ps info team appr summ orient logo")
  case (Inl e)
  then have "bind_err (create_html_report float_str num_str now ps info team appr summ orient logo)
             (write_pdf None) = Inl e" by simp
  from generate_pdf_caught [OF this] show ?thesis by (rule exI [of _ e])
next
  case (Inr html)
  then have "bind_err (create_html_report float_str num_str now ps info team appr summ orient logo)
             (write_pdf None) = Inl (NameError ''HTML'')" by (simp add: write_pdf_no_engine)
  from generate_pdf_caught [OF this] show ?thesis by (rule exI [of _ "NameError ''HTML''"])
qed

lemma generate_pdf_unreadable:
  assumes "p \<in> set ps" "\<not> readable_row float_str p"
  shows "\<exists>e. generate_pdf engine exc_str format_exc float_str num_str now ps info team appr summ
               orient logo shown
             = (None, shown @ [''PDF generation failed: '' @ exc_str e, format_exc e])"
proof -
  from create_html_report_unreadable [OF assms, of num_str now info team appr summ orient logo]
  obtain e where "create_html_report float_str num_str now ps info team appr summ orient logo = Inl e" ..
  then have "bind_err (create_html_report float_str num_str now ps info team appr summ orient logo)
             (write_pdf engine) = Inl e" by simp
  from generate_pdf_caught [OF this] show ?thesis by (rule exI [of _ e])
qed

text \<open>
  Claim C7. Whenever the body of \<open>generate_pdf\<close> raises, whatever the exception, the
  function shows two messages, a diagnostic one with the text of the exception and then
  the full trace, and returns \<open>None\<close>; it returns bytes only when the body returned them,
  and then shows nothing. The body raises when the engine is missing, and when a project
  has a numeric cell that \<open>float\<close> does not accept. The result of \<open>generate_pdf\<close> is a
  value in every case: no exception leaves it.
\<close>

theorem generate_pdf_reports_failure:
  "(case bind_err (create_html_report float_str num_str now ps info team appr summ orient logo)
           (write_pdf engine) of
      Inl e \<Rightarrow>
        generate_pdf engine exc_str format_exc float_str num_str now ps info team appr summ orient
          logo shown
        = (None, shown @ [''PDF generation failed: '' @ exc_str e, format_exc e])
    | Inr pdf_bytes \<Rightarrow>
        generate_pdf engine exc_str format_exc float_str num_str now ps info team appr summ orient
          logo shown
        = (Some pdf_bytes, shown))
   \<and> (engine = None \<longrightarrow>
        (\<exists>e. generate_pdf engine exc_str format_exc float_str num_str now ps info team appr summ
               orient logo shown
             = (None, shown @ [''PDF generation failed: '' @ exc_str e, format_exc e])))
   \<and> (p \<in> set ps \<and> \<not> readable_row float_str p \<longrightarrow>
        (\<exists>e. generate_pdf engine exc_str format_exc float_str num_str now ps info team appr summ
               orient logo shown
             = (None, shown @ [''PDF generation failed: '' @ exc_str e, format_exc e])))"
proof (intro conjI impI)
  show "case bind_err (create_html_report float_str num_str now ps info team appr summ orient logo)
           (write_pdf engine) of
      Inl e \<Rightarrow>
        generate_pdf engine exc_str format_exc float_str num_str now ps info team appr summ orient
          logo shown
        = (None, shown @ [''PDF generation failed: '' @ exc_str e, format_exc e])
    | Inr pdf_bytes \<Rightarrow>
        generate_pdf engine exc_str format_exc float_str num_str now ps info team appr summ orient
          logo shown
        = (Some pdf_bytes, shown)"
  proof (cases "bind_err (create_html_report float_str num_str now ps info team appr summ orient logo)
           (write_pdf engine)")
    case (Inl e)
    from generate_pdf_caught [OF this] show ?thesis unfolding Inl by simp
  next
    case (Inr pdf_bytes)
    from generate_pdf_returned [OF this] show ?thesis unfolding Inr by simp
  qed
next
  assume "engine = None"
  then show "\<exists>e. generate_pdf engine exc_str format_exc float_str num_str now ps info team appr summ
               orient logo shown
             = (None, shown @ [''PDF generation failed: '' @ exc_str e, format_exc e])"
    using generate_pdf_no_engine by simp
next
  assume "p \<in> set ps \<and> \<not> readable_row float_str p"
  then have "p \<in> set ps" "\<not> readable_row float_str p" by simp_all
  then show "\<exists>e. generate_pdf engine exc_str format_exc float_str num_str now ps info team appr summ
               orient logo shown
             = (None, shown @ [''PDF generation failed: '' @ exc_str e, format_exc e])"
    by (rule generate_pdf_unreadable)
qed

theorem generate_pdf_reports_failure_witness:
  "DEFAULT_PROJECT\<lparr>approved_cost := NoneV\<rparr> \<in> set [DEFAULT_PROJECT\<lparr>approved_cost := NoneV\<rparr>]
   \<and> \<not> readable_row Map.empty (DEFAULT_PROJECT\<lparr>approved_cost := NoneV\<rparr>)
   \<and> generate_pdf (Some (\<lambda>h. Inr ''%PDF'')) (\<lambda>e. ''bad cell'') (\<lambda>e. ''Traceback'')
         Map.empty (\<lambda>r. []) ''2026-01-01 00:00:00'' [DEFAULT_PROJECT\<lparr>approved_cost := NoneV\<rparr>]
         \<lparr>institution_info.name = ''College'', institution_info.location = ''Town'',
           institution_info.year = ''2024'', institution_info.date = ''01-May-2024''\<rparr>
         []
         \<lparr>approval_info.status = ''Pending'', approval_info.officer = [],
           approval_info.date = ''01-May-2024'', approval_info.comments = ''No comments provided''\<rparr>
         \<lparr>total_projects = 1, completed = 0, in_progress = 1, completion_rate = 0,
           total_approved = 0, total_contract = 0, total_disbursed = 0, balance = 0\<rparr>
         ''Landscape'' None []
       = (None, [''PDF generation failed: bad cell'', ''Traceback''])
   \<and> generate_pdf None (\<lambda>e. ''no engine'') (\<lambda>e. ''Traceback'')
         Map.empty (\<lambda>r. []) ''2026-01-01 00:00:00'' [DEFAULT_PROJECT]
         \<lparr>institution_info.name = ''College'', institution_info.location = ''Town'',
           institution_info.year = ''2024'', institution_info.date = ''01-May-2024''\<rparr>
         []
         \<lparr>approval_info.status = ''Pending'', approval_info.officer = [],
           approval_info.date = ''01-May-2024'', approval_info.comments = ''No comments provided''\<rparr>
         \<lparr>total_projects = 1, completed = 0, in_progress = 1, completion_rate = 0,
           total_approved = 0, total_contract = 0, total_disbursed = 0, balance = 0\<rparr>
         ''Landscape'' None [''earlier message'']
       = (None, [''earlier message'', ''PDF generation failed: no engine'', ''Traceback''])"
proof -
  define info where "info = \<lparr>institution_info.name = ''College'', institution_info.location = ''Town'',
           institution_info.year = ''2024'', institution_info.date = ''01-May-2024''\<rparr>"
  define appr where "appr = \<lparr>approval_info.status = ''Pending'', approval_info.officer = [],
           approval_info.date = ''01-May-2024'', approval_info.comments = ''No comments provided''\<rparr>"
  define summ where "summ = \<lparr>total_projects = 1, completed = 0, in_progress = 1, completion_rate = 0,
           total_approved = 0, total_contract = 0, total_disbursed = 0, balance = 0\<rparr>"
  define bad where "bad = DEFAULT_PROJECT\<lparr>approved_cost := NoneV\<rparr>"
  define engine :: "(string \<Rightarrow> py_error + string) option" where "engine = Some (\<lambda>h. Inr ''%PDF'')"
  have m: "bad \<in> set [bad]" by simp
  have u: "\<not> readable_row Map.empty bad"
    by (simp add: bad_def readable_row_def)
  from generate_pdf_reports_failure [where float_str = Map.empty and num_str = "\<lambda>r. []"
      and now = "''2026-01-01 00:00:00''" and ps = "[bad]" and info = info and team = "[]"
      and appr = appr and summ = summ and orient = "''Landscape''" and logo = None
      and engine = engine and exc_str = "\<lambda>e. ''bad cell''" and format_exc = "\<lambda>e. ''Traceback''"
      and shown = "[]" and p = bad] m u
  have a: "generate_pdf engine (\<lambda>e. ''bad cell'') (\<lambda>e. ''Traceback'')
         Map.empty (\<lambda>r. []) ''2026-01-01 00:00:00'' [bad] info [] appr summ ''Landscape'' None []
       = (None, [''PDF generation failed: bad cell'', ''Traceback''])"
    by auto
  from generate_pdf_reports_failure [where float_str = Map.empty and num_str = "\<lambda>r. []"
      and now = "''2026-01-01 00:00:00''" and ps = "[DEFAULT_PROJECT]" and info = info and team = "[]"
      and appr = appr and summ = summ and orient = "''Landscape''" and logo = None
      and engine = None and exc_str = "\<lambda>e. ''no engine''" and format_exc = "\<lambda>e. ''Traceback''"
      and shown = "[''earlier message'']" and p = bad]
  have b: "generate_pdf None (\<lambda>e. ''no engine'') (\<lambda>e. ''Traceback'')
         Map.empty (\<lambda>r. []) ''2026-01-01 00:00:00'' [DEFAULT_PROJECT] info [] appr summ
         ''Landscape'' None [''earlier message'']
       = (None, [''earlier message'', ''PDF generation failed: no engine'', ''Traceback''])"
    by auto
  from m u a b show ?thesis
    unfolding info_def appr_def summ_def bad_def engine_def by (intro conjI)
qed

end
